theory Spec2Isabelle
  imports Main
begin

section \<open>Python values\<close>

text \<open>
  A Python \<open>str\<close> is a sequence of Unicode code points; it is modelled as the list of
  those code points. ASCII literals of the source are written \<open>asc ''...''\<close>; the Chinese
  literals are written out as code points, with the source text transliterated beside them.
\<close>

type_synonym pystr = "nat list"

definition asc :: "string \<Rightarrow> pystr" where
  "asc s = map of_char s"

definition isspace :: "nat \<Rightarrow> bool" where
  \<comment> \<open>the code points for which \<open>str.isspace\<close> holds\<close>
  "isspace c \<longleftrightarrow>
     (9 \<le> c \<and> c \<le> 13) \<or> (28 \<le> c \<and> c \<le> 32) \<or> c = 133 \<or> c = 160 \<or> c = 5760
     \<or> (8192 \<le> c \<and> c \<le> 8202) \<or> c = 8232 \<or> c = 8233 \<or> c = 8239 \<or> c = 8287 \<or> c = 12288"

definition strip :: "pystr \<Rightarrow> pystr" where
  "strip s = rev (dropWhile isspace (rev (dropWhile isspace s)))"

definition startswith :: "pystr \<Rightarrow> pystr \<Rightarrow> bool" where
  "startswith s p \<longleftrightarrow> take (length p) s = p"

text \<open>\<open>contains p s\<close> is Python's \<open>p in s\<close>.\<close>

fun contains :: "pystr \<Rightarrow> pystr \<Rightarrow> bool" where
  "contains p [] = (p = [])"
| "contains p (c # cs) = (startswith (c # cs) p \<or> contains p cs)"

text \<open>\<open>split sep s\<close> is \<open>s.split(sep)\<close> for a separator of one character.\<close>

fun split_acc :: "nat \<Rightarrow> pystr \<Rightarrow> pystr \<Rightarrow> pystr list" where
  "split_acc sep cur [] = [cur]"
| "split_acc sep cur (c # cs) =
     (if c = sep then cur # split_acc sep [] cs else split_acc sep (cur @ [c]) cs)"

definition split :: "nat \<Rightarrow> pystr \<Rightarrow> pystr list" where
  "split sep s = split_acc sep [] s"

text \<open>\<open>join sep xs\<close> is \<open>sep.join(xs)\<close>.\<close>

fun join :: "pystr \<Rightarrow> pystr list \<Rightarrow> pystr" where
  "join sep [] = []"
| "join sep [x] = x"
| "join sep (x # y # ys) = x @ sep @ join sep (y # ys)"

text \<open>\<open>str(i)\<close> for an integer: its decimal digits, with a minus sign when negative.\<close>

fun digits :: "nat \<Rightarrow> pystr" where
  "digits n = (if n < 10 then [48 + n] else digits (n div 10) @ [48 + n mod 10])"

declare digits.simps [simp del]

definition str_int :: "int \<Rightarrow> pystr" where
  "str_int i = (if i < 0 then 45 # digits (nat (- i)) else digits (nat i))"

text \<open>
  Slices \<open>xs[:j]\<close> and \<open>xs[i:]\<close>: a negative bound counts from the end, and every bound
  is clamped to the list.
\<close>

definition slice_bound :: "nat \<Rightarrow> int \<Rightarrow> nat" where
  "slice_bound n i = (if i < 0 then nat (max 0 (int n + i)) else min n (nat i))"

definition slice_to :: "'a list \<Rightarrow> int \<Rightarrow> 'a list" where
  "slice_to xs j = take (slice_bound (length xs) j) xs"

definition slice_from :: "'a list \<Rightarrow> int \<Rightarrow> 'a list" where
  "slice_from xs i = drop (slice_bound (length xs) i) xs"

section \<open>The decision-oracle wrapper (llm\_client.py)\<close>

definition MAX_RETRIES :: int where "MAX_RETRIES = 3"
definition RETRY_DELAY :: int where "RETRY_DELAY = 2"

text \<open>
  What one request \<open>_client.chat.completions.create(...)\<close> does: it raises (the
  exception is kept as its \<open>str(e)\<close>, the only thing the handler reads), or it returns
  a response with no choices, with a first choice whose content is \<open>None\<close>, or with a
  content string. The requests of a run are numbered; \<open>api n\<close> is the outcome of the
  \<open>n\<close>-th one. The arguments of the request (messages, model, temperature, token limit)
  do not appear: the outcome is an input of the model, whatever was asked.
\<close>

datatype api_outcome = Raises pystr | No_choices | Content_None | Content pystr

type_synonym api = "nat \<Rightarrow> api_outcome"

text \<open>
  The effects of the wrapper on the world: the number of requests made so far and the
  arguments of the \<open>time.sleep\<close> calls, in order.
\<close>

record io =
  api_calls :: nat
  sleeps :: "int list"

text \<open>
  \<open>_clean_response\<close>: \<open>re.sub(r"<think>.*?</think>", "", content, flags=re.DOTALL).strip()\<close>.
  \<open>after_first p s\<close> is what follows the first occurrence of \<open>p\<close> in \<open>s\<close>, if there
  is one. A match starts at the leftmost \<open><think>\<close> that has a \<open></think>\<close> after
  it and ends with the nearest one; the scan goes on after the match.
\<close>

fun after_first :: "pystr \<Rightarrow> pystr \<Rightarrow> pystr option" where
  "after_first p [] = (if p = [] then Some [] else None)"
| "after_first p (c # cs) =
     (if startswith (c # cs) p then Some (drop (length p) (c # cs)) else after_first p cs)"

lemma after_first_length: "after_first p s = Some t \<Longrightarrow> length t \<le> length s"
  by (induction s) (auto split: if_splits)

function remove_think :: "pystr \<Rightarrow> pystr" where
  "remove_think [] = []"
| "remove_think (c # cs) =
     (if startswith (c # cs) (asc ''<think>'')
      then (case after_first (asc ''</think>'') (drop 7 (c # cs)) of
              Some rest \<Rightarrow> remove_think rest
            | None \<Rightarrow> c # remove_think cs)
      else c # remove_think cs)"
  by pat_completeness auto
termination
proof (relation "measure length")
  fix c cs rest
  assume "after_first (asc ''</think>'') (drop 7 (c # cs)) = Some rest"
  then have "length rest \<le> length (drop 7 (c # cs))"
    by (rule after_first_length)
  then show "(rest, c # cs) \<in> measure length" by simp
qed simp_all

definition clean_response :: "pystr \<Rightarrow> pystr" where
  "clean_response content = strip (remove_think content)"

text \<open>
  The body of the \<open>try\<close> of \<open>_call_with_retry\<close>: \<open>Inl\<close> is the exception it raises
  (as its \<open>str\<close>), \<open>Inr\<close> the string it returns. The three messages of the
  \<open>ValueError\<close>s are the source's Chinese literals ("the API returned empty choices",
  "the API returned content None", "the API returned an empty string"), code point by
  code point.
\<close>

definition try_request :: "api_outcome \<Rightarrow> pystr + pystr" where
  "try_request out =
     (case out of
        Raises e \<Rightarrow> Inl e
      | No_choices \<Rightarrow>
          Inl ([65, 80, 73, 36820, 22238, 30340] @ asc ''choices'' @ [20026, 31354])
      | Content_None \<Rightarrow>
          Inl ([65, 80, 73, 36820, 22238, 30340] @ asc ''content'' @ [20026] @ asc ''None'')
      | Content c \<Rightarrow>
          (let content = strip c
           in if content = []
              then Inl [65, 80, 73, 36820, 22238, 20102, 31354, 23383, 31526, 20018]
              else Inr (clean_response content)))"

text \<open>
  \<open>LLM_FAILED\<close> is the marker by which callers recognise the failure string: \<open>[LLM\<close>
  followed by the four characters U+8C03 U+7528 U+5931 U+8D25 ("call failed"). The failure
  string is the f-string of the last line of \<open>_call_with_retry\<close>: the marker,
  \<open>(\<close> U+91CD U+8BD5 ("retried"), \<open>MAX_RETRIES\<close>, U+6B21 ("times"), \<open>): \<close>,
  \<open>str(last_error)\<close> and \<open>]\<close>.
\<close>

definition LLM_FAILED :: pystr where
  "LLM_FAILED = [91, 76, 76, 77, 35843, 29992, 22833, 36133]"

definition failure_string :: "pystr option \<Rightarrow> pystr" where
  "failure_string last_error =
     LLM_FAILED @ [40, 37325, 35797] @ str_int MAX_RETRIES @ [27425, 41, 58, 32]
     @ (case last_error of None \<Rightarrow> asc ''None'' | Some e \<Rightarrow> e) @ asc '']''"

text \<open>
  \<open>_call_with_retry\<close>: the loop \<open>for attempt in range(MAX_RETRIES)\<close>, from \<open>attempt\<close>
  on. The handler \<open>except Exception\<close> takes every exception of the body.
\<close>

function retry_loop :: "api \<Rightarrow> int \<Rightarrow> pystr option \<Rightarrow> io \<Rightarrow> pystr \<times> io" where
  "retry_loop api attempt last_error w =
     (if 0 \<le> attempt \<and> attempt < MAX_RETRIES
      then (let w1 = w\<lparr>api_calls := api_calls w + 1\<rparr>
            in case try_request (api (api_calls w)) of
                 Inr content \<Rightarrow> (content, w1)
               | Inl e \<Rightarrow>
                   retry_loop api (attempt + 1) (Some e)
                     (if attempt < MAX_RETRIES - 1
                      then w1\<lparr>sleeps := sleeps w1 @ [RETRY_DELAY * (attempt + 1)]\<rparr>
                      else w1))
      else (failure_string last_error, w))"
  by pat_completeness auto
termination
  by (relation "measure (\<lambda>(api, attempt, last_error, w). nat (MAX_RETRIES - attempt))") auto

declare retry_loop.simps [simp del]

definition call_with_retry :: "api \<Rightarrow> io \<Rightarrow> pystr \<times> io" where
  "call_with_retry api w = retry_loop api 0 None w"

text \<open>\<open>chat\<close> and \<open>chat_with_history\<close> build the message list and call the wrapper.\<close>

definition chat :: "api \<Rightarrow> io \<Rightarrow> pystr \<times> io" where
  "chat api w = call_with_retry api w"

section \<open>The memory manager (agents/memory.py)\<close>

text \<open>The reference configuration (config.py).\<close>

definition MEMORY_COMPRESS_THRESHOLD :: int where "MEMORY_COMPRESS_THRESHOLD = 30"
definition MEMORY_KEEP_RECENT :: int where "MEMORY_KEEP_RECENT = 10"

text \<open>A message is the dict \<open>{"role": role, "content": content}\<close>.\<close>

record message =
  role :: pystr
  content :: pystr

text \<open>
  The fields of \<open>MemoryManager\<close> that its methods read or write. \<open>summary_model\<close> only
  goes into the arguments of the summary request.
\<close>

record MemoryManager =
  player_name :: pystr
  summary :: pystr
  recent :: "message list"
  compress_count :: int

text \<open>\<open>MemoryManager.__init__\<close>.\<close>

definition memory_init :: "pystr \<Rightarrow> MemoryManager" where
  "memory_init name = \<lparr>player_name = name, summary = [], recent = [], compress_count = 0\<rparr>"

text \<open>
  \<open>_simplify_prompt\<close>. The loop over the lines, with the flag \<open>skip\<close>, gives
  \<open>useful_lines\<close>. The three phrases looked for are Chinese literals of the source:
  "follow strictly the JSON format below" (\<open>JSON_FORMAT_PHRASE\<close>), "say directly what you
  have to say" (\<open>SPEAK_PHRASE\<close>) and "take care not to reveal your true identity"
  (\<open>IDENTITY_PHRASE\<close>); \<open>FOR_EXAMPLE\<close> is the two characters U+4F8B U+5982.
\<close>

definition JSON_FORMAT_PHRASE :: pystr where
  "JSON_FORMAT_PHRASE =
     [35831, 20005, 26684, 25353, 29031, 20197, 19979, 74, 83, 79, 78, 26684, 24335]"

definition SPEAK_PHRASE :: pystr where
  "SPEAK_PHRASE = [35831, 30452, 25509, 35828, 20986, 20320, 30340, 21457, 35328, 20869, 23481]"

definition IDENTITY_PHRASE :: pystr where
  "IDENTITY_PHRASE =
     [27880, 24847, 19981, 35201, 26292, 38706, 33258, 24049, 30340, 30495, 23454, 36523, 20221]"

definition FOR_EXAMPLE :: pystr where
  "FOR_EXAMPLE = [20363, 22914]"

fun useful_lines :: "bool \<Rightarrow> pystr list \<Rightarrow> pystr list" where
  "useful_lines skip [] = []"
| "useful_lines skip (line # lines) =
     (if contains JSON_FORMAT_PHRASE line then useful_lines True lines
      else if contains SPEAK_PHRASE line then useful_lines skip lines
      else if contains IDENTITY_PHRASE line then useful_lines skip lines
      else if skip \<and> (startswith (strip line) (asc ''{'') \<or> startswith (strip line) FOR_EXAMPLE)
        then useful_lines skip lines
      else (let stripped = strip line
            in if stripped \<noteq> [] then stripped # useful_lines False lines
               else useful_lines False lines))"

definition simplify_prompt :: "pystr \<Rightarrow> pystr" where
  "simplify_prompt prompt = join (asc '' '') (slice_to (useful_lines False (split 10 prompt)) 5)"

text \<open>
  \<open>_format_messages_for_summary\<close>: the lines one message adds, and the text of a list of
  messages. The prefixes are \<open>[\<close>game event\<open>]\<close> (\<open>GAME_EVENT\<close>), \<open>[\<close>mission
  execution\<open>]\<close> (\<open>MISSION_EXECUTION\<close>), \<open>[\<close>decision request\<open>] \<close>
  (\<open>DECISION_REQUEST\<close>) and, for an answer, \<open>[\<close> the player's name, then the
  characters U+7684 U+56DE U+590D ("'s reply") and \<open>] \<close>.
\<close>

definition GAME_EVENT :: pystr where
  "GAME_EVENT = [91, 28216, 25103, 20107, 20214, 93]"

definition MISSION_EXECUTION :: pystr where
  "MISSION_EXECUTION = [91, 20219, 21153, 25191, 34892, 93]"

definition DECISION_REQUEST :: pystr where
  "DECISION_REQUEST = [91, 20915, 31574, 35831, 27714, 93, 32]"

definition format_message :: "pystr \<Rightarrow> message \<Rightarrow> pystr list" where
  "format_message name msg =
     (if role msg = asc ''user''
      then (if startswith (content msg) GAME_EVENT then [content msg]
            else if startswith (content msg) MISSION_EXECUTION then [content msg]
            else (let simplified = simplify_prompt (content msg)
                  in if simplified \<noteq> [] then [DECISION_REQUEST @ simplified] else []))
      else if role msg = asc ''assistant''
        then [asc ''['' @ name @ [30340, 22238, 22797, 93, 32] @ content msg]
      else [])"

definition format_messages_for_summary :: "pystr \<Rightarrow> message list \<Rightarrow> pystr" where
  "format_messages_for_summary name messages = join [10] (concat (map (format_message name) messages))"

text \<open>
  \<open>_compress\<close>, for a keep count \<open>keep_count\<close> (\<open>MEMORY_KEEP_RECENT\<close> in the source). The
  summary request is \<open>llm_client.chat\<close>; the text of the request (which differs with
  an empty and a non-empty summary) is an argument of it and does not appear.
\<close>

definition compress :: "int \<Rightarrow> api \<Rightarrow> MemoryManager \<times> io \<Rightarrow> MemoryManager \<times> io" where
  "compress keep_count api mw =
     (let m = fst mw; w = snd mw;
          old_messages = slice_to (recent m) (- keep_count);
          new_messages = slice_from (recent m) (- keep_count);
          text_to_compress = format_messages_for_summary (player_name m) old_messages
      in if strip text_to_compress = [] then (m\<lparr>recent := new_messages\<rparr>, w)
         else (let (new_summary, w1) = chat api w
               in if startswith new_summary LLM_FAILED then (m\<lparr>recent := new_messages\<rparr>, w1)
                  else (m\<lparr>summary := new_summary, recent := new_messages,
                           compress_count := compress_count m + 1\<rparr>, w1)))"

text \<open>
  \<open>add\<close>, for a threshold \<open>threshold\<close> (\<open>MEMORY_COMPRESS_THRESHOLD\<close> in the source) and a
  keep count.
\<close>

definition add :: "int \<Rightarrow> int \<Rightarrow> api \<Rightarrow> pystr \<Rightarrow> pystr \<Rightarrow> MemoryManager \<times> io \<Rightarrow> MemoryManager \<times> io" where
  "add threshold keep_count api r c mw =
     (let m1 = (fst mw)\<lparr>recent := recent (fst mw) @ [\<lparr>role = r, content = c\<rparr>]\<rparr>
      in if int (length (recent m1)) \<ge> threshold then compress keep_count api (m1, snd mw)
         else (m1, snd mw))"

text \<open>A run of appends: the messages are added one after the other.\<close>

fun add_all :: "int \<Rightarrow> int \<Rightarrow> api \<Rightarrow> message list \<Rightarrow> MemoryManager \<times> io \<Rightarrow> MemoryManager \<times> io" where
  "add_all T K api [] mw = mw"
| "add_all T K api (msg # msgs) mw = add_all T K api msgs (add T K api (role msg) (content msg) mw)"

section \<open>Control state of the asynchronous runner (server/async\_game\_runner.py)\<close>

text \<open>
  \<open>AsyncGameRunner.state\<close> only ever holds one of the four \<open>STATE_*\<close> constants.
  \<open>pause_event\<close> is the \<open>asyncio.Event\<close> \<open>_pause_event\<close>: \<open>True\<close> when set (run),
  \<open>False\<close> when cleared (pause).
\<close>

datatype runner_state = STATE_IDLE | STATE_RUNNING | STATE_PAUSED | STATE_FINISHED

record runner =
  pause_event :: bool
  stop_requested :: bool
  state :: runner_state
  step_mode :: bool

text \<open>\<open>AsyncGameRunner.__init__\<close>.\<close>

definition runner_init :: runner where
  "runner_init = \<lparr>pause_event = True, stop_requested = False, state = STATE_IDLE, step_mode = False\<rparr>"

definition pause :: "runner \<Rightarrow> runner" where
  "pause r = (if state r = STATE_RUNNING
              then r\<lparr>pause_event := False, state := STATE_PAUSED\<rparr>
              else r)"

definition resume :: "runner \<Rightarrow> runner" where
  "resume r = (if state r = STATE_PAUSED
               then r\<lparr>step_mode := False, state := STATE_RUNNING, pause_event := True\<rparr>
               else r)"

definition step :: "runner \<Rightarrow> runner" where
  "step r = (if state r = STATE_PAUSED
             then r\<lparr>step_mode := True, state := STATE_RUNNING, pause_event := True\<rparr>
             else r)"

definition stop :: "runner \<Rightarrow> runner" where
  "stop r = (let r1 = r\<lparr>stop_requested := True\<rparr>
             in if state r1 = STATE_PAUSED then r1\<lparr>pause_event := True\<rparr> else r1)"

text \<open>
  An emitted event: its type tag and its payload (\<open>EventEmitter.emit(event_type, data)\<close>).
\<close>

type_synonym event = "pystr \<times> (pystr \<times> pystr) list"

text \<open>
  \<open>_checkpoint\<close> is a coroutine with one point where it can stay suspended,
  \<open>await self._pause_event.wait()\<close>. \<open>checkpoint_wait\<close> is the code from that
  point on, run against the runner as the commands have left it: it stays suspended
  while the event is cleared, and once the event is set it raises \<open>_StopGame\<close> or
  returns. \<open>checkpoint\<close> is the call itself: the code before the wait, then the wait.
\<close>

datatype checkpoint_outcome = StopGame | Suspended | Proceed

definition checkpoint_wait :: "runner \<Rightarrow> checkpoint_outcome" where
  "checkpoint_wait r =
     (if \<not> pause_event r then Suspended
      else if stop_requested r then StopGame
      else Proceed)"

definition checkpoint :: "runner \<Rightarrow> runner \<times> event list \<times> checkpoint_outcome" where
  "checkpoint r =
     (if stop_requested r then (r, [], StopGame)
      else if step_mode r
        then (let r1 = r\<lparr>pause_event := False, state := STATE_PAUSED\<rparr>
              in (r1, [(asc ''runner_paused'', [(asc ''reason'', asc ''step'')])], checkpoint_wait r1))
        else (r, [], checkpoint_wait r))"

section \<open>Configuration of the game (config.py)\<close>

definition PLAYER_COUNT :: int where "PLAYER_COUNT = 6"
definition MISSION_TEAM_SIZES :: "int list" where "MISSION_TEAM_SIZES = [2, 3, 4, 3, 4]"
definition MISSION_FAIL_REQUIRED :: "int list" where "MISSION_FAIL_REQUIRED = [1, 1, 1, 1, 1]"
definition MAX_TEAM_VOTES :: int where "MAX_TEAM_VOTES = 5"

section \<open>Exceptions and containers\<close>

text \<open>The exceptions that the game code can raise, by class.\<close>

datatype error =
  TypeError | ValueError | AttributeError | IndexError | KeyError | OverflowError
  | ZeroDivisionError

text \<open>\<open>xs[i]\<close>: a negative index counts from the end; out of range raises.\<close>

definition getitem :: "'a list \<Rightarrow> int \<Rightarrow> error + 'a" where
  "getitem xs i =
     (if 0 \<le> i \<and> i < int (length xs) then Inr (xs ! nat i)
      else if - int (length xs) \<le> i \<and> i < 0 then Inr (xs ! nat (int (length xs) + i))
      else Inl IndexError)"

text \<open>
  A \<open>dict\<close> is the list of its items in insertion order, keys distinct. \<open>d[k] = v\<close>
  replaces the value of a key that is there, in its place, and appends a new key.
\<close>

fun setitem :: "('k \<times> 'v) list \<Rightarrow> 'k \<Rightarrow> 'v \<Rightarrow> ('k \<times> 'v) list" where
  "setitem [] k v = [(k, v)]"
| "setitem ((k', v') # d) k v = (if k' = k then (k, v) # d else (k', v') # setitem d k v)"

section \<open>Roles and players (models/role.py, models/player.py)\<close>

datatype Team = GOOD | EVIL

text \<open>
  The keys of \<open>ROLES\<close>; every \<open>RoleInfo\<close> of a game is an entry of that table. The
  fields \<open>name_cn\<close> and \<open>description\<close> only go into prompts and logs.
\<close>

datatype role_name = merlin | percival | loyal_servant_1 | loyal_servant_2 | morgana | assassin

record RoleInfo =
  role_id :: role_name
  team :: Team
  can_see_evil :: bool
  can_see_merlin :: bool
  is_visible_to_merlin :: bool
  is_assassin :: bool

definition ROLES :: "role_name \<Rightarrow> RoleInfo" where
  "ROLES r =
     \<lparr>role_id = r,
      team = (if r = morgana \<or> r = assassin then EVIL else GOOD),
      can_see_evil = (r = merlin),
      can_see_merlin = (r = percival),
      is_visible_to_merlin = True,
      is_assassin = (r = assassin)\<rparr>"

text \<open>
  A player. The field \<open>role\<close> of the source is \<open>role_info\<close> here (\<open>role\<close> is the key of
  a message); \<open>player_name\<close> only goes into prompts and logs.
\<close>

record Player =
  player_id :: int
  role_info :: RoleInfo
  is_leader :: bool
  known_evil :: "int list"
  known_merlin_or_morgana :: "int list"
  known_allies :: "int list"

definition is_good :: "Player \<Rightarrow> bool" where
  "is_good p \<longleftrightarrow> team (role_info p) = GOOD"

definition is_evil :: "Player \<Rightarrow> bool" where
  "is_evil p \<longleftrightarrow> team (role_info p) = EVIL"

section \<open>Game state (models/game\_state.py)\<close>

record MissionRecord =
  round_num :: int
  team_leader_id :: int
  team_members :: "int list"
  team_votes :: "(int \<times> bool) list"
  mission_votes :: "(int \<times> bool) list"
  success :: "bool option"
  speeches :: "(int \<times> pystr) list"

text \<open>\<open>MissionRecord(round_num=..., team_leader_id=..., team_members=...)\<close>.\<close>

definition new_record :: "int \<Rightarrow> int \<Rightarrow> int list \<Rightarrow> MissionRecord" where
  "new_record r l t =
     \<lparr>round_num = r, team_leader_id = l, team_members = t, team_votes = [],
      mission_votes = [], success = None, speeches = []\<rparr>"

text \<open>
  \<open>MissionRecord\<close> objects are shared: the engine keeps working on a record after it
  has appended it to \<open>mission_records\<close>. So the records live in a store, a list indexed
  by address, and \<open>mission_records\<close> is a list of addresses.
\<close>

type_synonym ref = nat

record GameState =
  players :: "Player list"
  current_round :: int
  current_leader_idx :: int
  consecutive_rejects :: int
  mission_results :: "bool list"
  mission_records :: "ref list"
  proposed_team :: "int list"
  game_over :: bool
  winner :: "pystr option"
  end_reason :: pystr

text \<open>\<open>GameState()\<close>.\<close>

definition GameState_init :: GameState where
  "GameState_init =
     \<lparr>players = [], current_round = 0, current_leader_idx = 0, consecutive_rejects = 0,
      mission_results = [], mission_records = [], proposed_team = [], game_over = False,
      winner = None, end_reason = []\<rparr>"

definition good_wins_count :: "GameState \<Rightarrow> int" where
  "good_wins_count s = int (length (filter (\<lambda>r. r) (mission_results s)))"

definition evil_wins_count :: "GameState \<Rightarrow> int" where
  "evil_wins_count s = int (length (filter (\<lambda>r. \<not> r) (mission_results s)))"

definition current_leader :: "GameState \<Rightarrow> error + Player" where
  "current_leader s = getitem (players s) (current_leader_idx s)"

definition get_player :: "GameState \<Rightarrow> int \<Rightarrow> error + Player" where
  "get_player s pid = getitem (players s) pid"

definition next_leader :: "GameState \<Rightarrow> error + GameState" where
  "next_leader s =
     (if players s = [] then Inl ZeroDivisionError
      else (let idx = (current_leader_idx s + 1) mod int (length (players s))
            in Inr (s\<lparr>current_leader_idx := idx,
                      players := map (\<lambda>p. p\<lparr>is_leader := (player_id p = idx)\<rparr>) (players s)\<rparr>)))"

text \<open>
  \<open>get_public_history\<close>. \<open>player_label i\<close> is \<open>f"<player>{i + 1}"\<close>, where
  \<open><player>\<close> stands for the two characters U+73A9 U+5BB6. \<open>record_lines\<close> is what one
  pass of the loop appends to \<open>lines\<close>. The Chinese literals are, in order: the text for
  an empty history ("this is the first round of the game, there is no history yet"), the
  round header (\<open>"\n--- <round> {round_num} <mission> ---"\<close>), "leader: ", "team: ", the vote
  line ("team vote: {n} in favour, {n} against"), "speeches:", "mission result: " with
  "success" or "failure", "(there were {n} fail votes)", "(all votes were success)",
  "team vote result: rejected, mission not run" and the score line ("current score: good
  {n} : {n} evil").
\<close>

definition player_label :: "int \<Rightarrow> pystr" where
  "player_label i = [29609, 23478] @ str_int (i + 1)"

definition approve_count :: "MissionRecord \<Rightarrow> int" where
  "approve_count r = int (length (filter (\<lambda>v. v) (map snd (team_votes r))))"

definition reject_count :: "MissionRecord \<Rightarrow> int" where
  "reject_count r = int (length (filter (\<lambda>v. \<not> v) (map snd (team_votes r))))"

definition fail_count :: "MissionRecord \<Rightarrow> int" where
  "fail_count r = int (length (filter (\<lambda>v. \<not> v) (map snd (mission_votes r))))"

definition record_lines :: "MissionRecord \<Rightarrow> pystr list" where
  "record_lines r =
     [[10, 45, 45, 45, 32, 31532] @ str_int (round_num r) @ [36718, 20219, 21153, 32, 45, 45, 45],
      [38431, 38271, 58, 32] @ player_label (team_leader_id r),
      [38431, 20237, 58, 32] @ join (asc '', '') (map player_label (team_members r)),
      [32452, 38431, 25237, 31080, 58, 32] @ str_int (approve_count r) @ [31080, 21516, 24847, 44, 32]
        @ str_int (reject_count r) @ [31080, 21453, 23545]]
     @ (if speeches r \<noteq> []
        then [21457, 35328, 35760, 24405, 58]
             # map (\<lambda>(pid, speech). asc ''  '' @ player_label pid @ asc '': '' @ speech) (speeches r)
        else [])
     @ (case success r of
          Some ok \<Rightarrow>
            [[20219, 21153, 32467, 26524, 58, 32] @ (if ok then [25104, 21151] else [22833, 36133]),
             if fail_count r > 0
             then [32, 32, 40, 20986, 29616, 20102] @ str_int (fail_count r) @ [24352, 22833, 36133, 31080, 41]
             else [32, 32, 40, 20840, 37096, 20026, 25104, 21151, 31080, 41]]
        | None \<Rightarrow>
            [[32452, 38431, 25237, 31080, 32467, 26524, 58, 32, 34987, 21542, 20915, 65292, 26410,
              25191, 34892, 20219, 21153]])"

definition get_public_history :: "MissionRecord list \<Rightarrow> GameState \<Rightarrow> pystr" where
  "get_public_history store s =
     (if mission_records s = []
      then [36825, 26159, 28216, 25103, 30340, 31532, 19968, 36718, 65292, 36824, 27809, 26377,
            21382, 21490, 35760, 24405, 12290]
      else join [10]
             (concat (map (\<lambda>a. record_lines (store ! a)) (mission_records s))
              @ [[10, 24403, 21069, 27604, 20998, 58, 32, 27491, 20041, 32] @ str_int (good_wins_count s)
                 @ [32, 58, 32] @ str_int (evil_wins_count s) @ [32, 37034, 24694]]))"

text \<open>
  Two records show the same to the public: they agree on everything but the vote maps, and
  on those they agree in the numbers of approvals, rejections, success votes and fail votes.
\<close>

definition success_count :: "MissionRecord \<Rightarrow> int" where
  "success_count r = int (length (filter (\<lambda>v. v) (map snd (mission_votes r))))"

definition same_public_record :: "MissionRecord \<Rightarrow> MissionRecord \<Rightarrow> bool" where
  "same_public_record r1 r2 \<longleftrightarrow>
     round_num r1 = round_num r2 \<and> team_leader_id r1 = team_leader_id r2
     \<and> team_members r1 = team_members r2 \<and> speeches r1 = speeches r2
     \<and> success r1 = success r2
     \<and> approve_count r1 = approve_count r2 \<and> reject_count r1 = reject_count r2
     \<and> success_count r1 = success_count r2 \<and> fail_count r1 = fail_count r2"

section \<open>The answers of the decision oracle, as the agents read them (agents/agent.py)\<close>

text \<open>
  The value that \<open>json.loads\<close> gives. Of a float the code only ever takes \<open>int(x)\<close>, so a
  float is kept as its integer part, or as an infinity (\<open>int\<close> raises \<open>OverflowError\<close>) or a
  NaN (\<open>int\<close> raises \<open>ValueError\<close>). An object is the list of its items.
\<close>

datatype float_value = Finite int | Infinity | NaN

datatype json =
  JNull | JBool bool | JInt int | JFloat float_value | JStr pystr
  | JList "json list" | JDict "(pystr \<times> json) list"

text \<open>
  \<open>int(s)\<close> for a string: surrounding whitespace, an optional sign, then decimal digits,
  with single underscores allowed between digits. The digits are the ASCII ones (Python also
  reads the decimal digits of other scripts).
\<close>

definition is_digit :: "nat \<Rightarrow> bool" where
  "is_digit c \<longleftrightarrow> 48 \<le> c \<and> c \<le> 57"

fun number_tail :: "nat \<Rightarrow> pystr \<Rightarrow> nat option" where
  "number_tail acc [] = Some acc"
| "number_tail acc [c] = (if is_digit c then Some (10 * acc + (c - 48)) else None)"
| "number_tail acc (c # d # cs) =
     (if is_digit c then number_tail (10 * acc + (c - 48)) (d # cs)
      else if c = 95 \<and> is_digit d then number_tail acc (d # cs)
      else None)"

definition unsigned_value :: "pystr \<Rightarrow> nat option" where
  "unsigned_value s = (case s of [] \<Rightarrow> None | c # cs \<Rightarrow> if is_digit c then number_tail 0 s else None)"

definition int_of_str :: "pystr \<Rightarrow> int option" where
  "int_of_str s =
     (case strip s of
        [] \<Rightarrow> None
      | c # cs \<Rightarrow>
          if c = 45 then map_option (\<lambda>n. - int n) (unsigned_value cs)
          else if c = 43 then map_option int (unsigned_value cs)
          else map_option int (unsigned_value (c # cs)))"

text \<open>\<open>int(x)\<close> for a JSON value.\<close>

fun py_int :: "json \<Rightarrow> error + int" where
  "py_int JNull = Inl TypeError"
| "py_int (JBool b) = Inr (if b then 1 else 0)"
| "py_int (JInt i) = Inr i"
| "py_int (JFloat (Finite i)) = Inr i"
| "py_int (JFloat Infinity) = Inl OverflowError"
| "py_int (JFloat NaN) = Inl ValueError"
| "py_int (JStr s) = (case int_of_str s of None \<Rightarrow> Inl ValueError | Some i \<Rightarrow> Inr i)"
| "py_int (JList xs) = Inl TypeError"
| "py_int (JDict d) = Inl TypeError"

text \<open>
  \<open>for t in x\<close> for a JSON value: the elements of a list, the characters of a string, the
  keys of an object; nothing else can be iterated.
\<close>

fun py_iter :: "json \<Rightarrow> error + json list" where
  "py_iter (JList xs) = Inr xs"
| "py_iter (JStr s) = Inr (map (\<lambda>c. JStr [c]) s)"
| "py_iter (JDict d) = Inr (map (\<lambda>kv. JStr (fst kv)) d)"
| "py_iter JNull = Inl TypeError"
| "py_iter (JBool b) = Inl TypeError"
| "py_iter (JInt i) = Inl TypeError"
| "py_iter (JFloat f) = Inl TypeError"

text \<open>
  \<open>x.lower()\<close> for a JSON value: only a string has the method. \<open>lower\<close> maps the ASCII
  capitals; the code only compares its result with, or searches it for, the ASCII words
  \<open>approve\<close>, \<open>reject\<close>, \<open>success\<close> and \<open>fail\<close>, and for that the other letters that
  \<open>str.lower\<close> changes make no difference.
\<close>

definition lower :: "pystr \<Rightarrow> pystr" where
  "lower s = map (\<lambda>c. if 65 \<le> c \<and> c \<le> 90 then c + 32 else c) s"

fun py_lower :: "json \<Rightarrow> error + pystr" where
  "py_lower (JStr s) = Inr (lower s)"
| "py_lower JNull = Inl AttributeError"
| "py_lower (JBool b) = Inl AttributeError"
| "py_lower (JInt i) = Inl AttributeError"
| "py_lower (JFloat f) = Inl AttributeError"
| "py_lower (JList xs) = Inl AttributeError"
| "py_lower (JDict d) = Inl AttributeError"

text \<open>\<open>d.get(k, dflt)\<close>.\<close>

definition dict_get :: "('k \<times> 'v) list \<Rightarrow> 'k \<Rightarrow> 'v \<Rightarrow> 'v" where
  "dict_get d k dflt = (case map_of d k of None \<Rightarrow> dflt | Some v \<Rightarrow> v)"

text \<open>
  One answer of the oracle. \<open>reply\<close> is the string. The other fields are what the library
  calls of the parse methods return on it:
  \<^item> \<open>json_object\<close>: \<open>re.search(r'\{.*?\}', response, re.DOTALL)\<close> followed by
    \<open>json.loads(match.group())\<close>: no match, a \<open>JSONDecodeError\<close>, or the parsed object
    (the matched text starts with a brace, so a value that parses is an object);
  \<^item> \<open>player_numbers\<close>: the numbers found by \<open>re.findall\<close> with the pattern of the
    word "player" followed by \<open>(\d+)\<close>, as integers;
  \<^item> \<open>numbers\<close>: the numbers found by \<open>re.findall(r'\d+', response)\<close>, as integers.
\<close>

datatype json_search = No_match | Decode_error | Parsed "(pystr \<times> json) list"

record response =
  reply :: pystr
  json_object :: json_search
  player_numbers :: "nat list"
  numbers :: "nat list"

text \<open>
  The environment of a game: \<open>llm n\<close> is the answer to the \<open>n\<close>-th call of \<open>_call_llm\<close>,
  and \<open>rnd n\<close> decides the \<open>n\<close>-th call of \<open>random.choice\<close>, which takes the element at
  index \<open>rnd n mod len(seq)\<close> and raises \<open>IndexError\<close> on an empty sequence. What an agent
  keeps in its memory only goes into the prompts; the answers are inputs of the model, so
  the memories do not appear in the game.
\<close>

record env =
  llm :: "nat \<Rightarrow> response"
  rnd :: "nat \<Rightarrow> nat"

definition random_choice :: "env \<Rightarrow> nat \<Rightarrow> 'a list \<Rightarrow> error + 'a" where
  "random_choice e n seq = (if seq = [] then Inl IndexError else Inr (seq ! (rnd e n mod length seq)))"

text \<open>
  \<open>list(set(xs))\<close> for a list of small non-negative integers: CPython gives them in
  increasing order. \<open>list(dict.fromkeys(xs))\<close> keeps the first occurrence of each element.
\<close>

definition list_of_set :: "int list \<Rightarrow> int list" where
  "list_of_set xs = sort (remdups xs)"

definition fromkeys :: "'a list \<Rightarrow> 'a list" where
  "fromkeys xs = rev (remdups (rev xs))"

text \<open>
  The loop \<open>while len(team) < team_size: choice = random.choice(candidates);
  team.append(choice); candidates.remove(choice)\<close>, which both \<open>_parse_team\<close> and
  \<open>execute_team_phase\<close> contain. \<open>n\<close> counts the calls of \<open>random.choice\<close>.
\<close>

function pad_loop :: "env \<Rightarrow> int \<Rightarrow> int list \<Rightarrow> int list \<Rightarrow> nat \<Rightarrow> error + (int list \<times> nat)" where
  "pad_loop e team_size members candidates n =
     (if int (length members) < team_size
      then (case random_choice e n candidates of
              Inl err \<Rightarrow> Inl err
            | Inr choice \<Rightarrow> pad_loop e team_size (members @ [choice]) (remove1 choice candidates) (n + 1))
      else Inr (members, n))"
  by pat_completeness auto
termination
  by (relation "measure (\<lambda>(e, team_size, members, candidates, n). nat (team_size - int (length members)))") auto

declare pad_loop.simps [simp del]

text \<open>\<open>[int(t) - 1 for t in team]\<close>: the first element that \<open>int\<close> rejects raises.\<close>

fun ints_minus_one :: "json list \<Rightarrow> error + int list" where
  "ints_minus_one [] = Inr []"
| "ints_minus_one (t # ts) =
     (case py_int t of
        Inl err \<Rightarrow> Inl err
      | Inr i \<Rightarrow> (case ints_minus_one ts of Inl err \<Rightarrow> Inl err | Inr is \<Rightarrow> Inr ((i - 1) # is)))"

definition valid_id :: "int \<Rightarrow> bool" where
  "valid_id t \<longleftrightarrow> 0 \<le> t \<and> t < PLAYER_COUNT"

text \<open>
  \<open>_parse_team\<close>. First the \<open>try\<close> block: \<open>Inr (Some team)\<close> when it returns a team,
  \<open>Inr None\<close> when control goes on to the code after it (no match, a team of the wrong
  size, or an exception that the \<open>except\<close> clause lists: \<open>JSONDecodeError\<close>,
  \<open>ValueError\<close>, \<open>KeyError\<close>), \<open>Inl\<close> when an exception leaves the method.
\<close>

definition caught_by_parse_team :: "error \<Rightarrow> bool" where
  "caught_by_parse_team err \<longleftrightarrow> err = ValueError \<or> err = KeyError"

definition parse_team_try :: "response \<Rightarrow> int \<Rightarrow> error + int list option" where
  "parse_team_try r team_size =
     (case json_object r of
        No_match \<Rightarrow> Inr None
      | Decode_error \<Rightarrow> Inr None
      | Parsed data \<Rightarrow>
          (case py_iter (dict_get data (asc ''team'') (JList [])) of
             Inl err \<Rightarrow> if caught_by_parse_team err then Inr None else Inl err
           | Inr ts \<Rightarrow>
               (case ints_minus_one ts of
                  Inl err \<Rightarrow> if caught_by_parse_team err then Inr None else Inl err
                | Inr team0 \<Rightarrow>
                    (let team = list_of_set (filter valid_id team0)
                     in if int (length team) = team_size then Inr (Some team) else Inr None))))"

definition parse_team :: "env \<Rightarrow> int \<Rightarrow> response \<Rightarrow> int \<Rightarrow> nat \<Rightarrow> error + (int list \<times> nat)" where
  "parse_team e self_id r team_size n =
     (case parse_team_try r team_size of
        Inl err \<Rightarrow> Inl err
      | Inr (Some members) \<Rightarrow> Inr (members, n)
      | Inr None \<Rightarrow>
          (let found = (if player_numbers r \<noteq> [] then player_numbers r else numbers r);
               team = list_of_set
                        (map (\<lambda>k. int k - 1) (filter (\<lambda>k. 1 \<le> int k \<and> int k \<le> PLAYER_COUNT) found))
           in if int (length team) \<ge> team_size then Inr (slice_to team team_size, n)
              else if self_id \<notin> set [0..PLAYER_COUNT - 1] then Inl ValueError
              else pad_loop e team_size [self_id] (remove1 self_id [0..PLAYER_COUNT - 1]) n))"

text \<open>
  \<open>_parse_vote\<close>, for an agent whose player is good or not. The words looked for in the
  text are the Chinese for "agree" (U+540C U+610F) and "oppose" (U+53CD U+5BF9).
\<close>

definition parse_vote :: "bool \<Rightarrow> response \<Rightarrow> error + bool" where
  "parse_vote good r =
     (let fallback =
            (if contains [21516, 24847] (reply r) \<or> contains (asc ''approve'') (lower (reply r)) then True
             else if contains [21453, 23545] (reply r) \<or> contains (asc ''reject'') (lower (reply r)) then False
             else good)
      in case json_object r of
           No_match \<Rightarrow> Inr fallback
         | Decode_error \<Rightarrow> Inr fallback
         | Parsed data \<Rightarrow>
             (case py_lower (dict_get data (asc ''vote'') (JStr [])) of
                Inl err \<Rightarrow> Inl err
              | Inr vote \<Rightarrow> Inr (vote = asc ''approve'')))"

text \<open>\<open>_parse_mission\<close>; the word looked for is the Chinese for "failure" (U+5931 U+8D25).\<close>

definition parse_mission :: "response \<Rightarrow> error + bool" where
  "parse_mission r =
     (case json_object r of
        No_match \<Rightarrow> Inr (\<not> (contains [22833, 36133] (reply r) \<or> contains (asc ''fail'') (lower (reply r))))
      | Decode_error \<Rightarrow> Inr (\<not> (contains [22833, 36133] (reply r) \<or> contains (asc ''fail'') (lower (reply r))))
      | Parsed data \<Rightarrow>
          (case py_lower (dict_get data (asc ''action'') (JStr [])) of
             Inl err \<Rightarrow> Inl err
           | Inr action \<Rightarrow> Inr (action = asc ''success'')))"

text \<open>
  \<open>_parse_target\<close>. \<open>parse_target_try\<close> is the \<open>try\<close> block, with the same reading of
  its result as for \<open>_parse_team\<close>; its \<open>except\<close> clause lists \<open>JSONDecodeError\<close> and
  \<open>ValueError\<close>.
\<close>

definition parse_target_try :: "int \<Rightarrow> response \<Rightarrow> error + int option" where
  "parse_target_try self_id r =
     (case json_object r of
        No_match \<Rightarrow> Inr None
      | Decode_error \<Rightarrow> Inr None
      | Parsed data \<Rightarrow>
          (case py_int (dict_get data (asc ''target'') (JInt 0)) of
             Inl err \<Rightarrow> if err = ValueError then Inr None else Inl err
           | Inr target \<Rightarrow>
               (let target_id = target - 1
                in if valid_id target_id \<and> target_id \<noteq> self_id then Inr (Some target_id)
                   else Inr None)))"

definition parse_target :: "env \<Rightarrow> Player \<Rightarrow> response \<Rightarrow> nat \<Rightarrow> error + (int \<times> nat)" where
  "parse_target e self r n =
     (case parse_target_try (player_id self) r of
        Inl err \<Rightarrow> Inl err
      | Inr (Some target_id) \<Rightarrow> Inr (target_id, n)
      | Inr None \<Rightarrow>
          (let found = (if player_numbers r \<noteq> [] then player_numbers r else numbers r)
           in case filter (\<lambda>t. valid_id t \<and> t \<noteq> player_id self) (map (\<lambda>k. int k - 1) found) of
                target_id # rest \<Rightarrow> Inr (target_id, n)
              | [] \<Rightarrow>
                  (case random_choice e n
                          (filter (\<lambda>i. i \<noteq> player_id self \<and> i \<notin> set (known_allies self))
                             [0..PLAYER_COUNT - 1]) of
                     Inl err \<Rightarrow> Inl err
                   | Inr target_id \<Rightarrow> Inr (target_id, n + 1))))"

section \<open>The engine and its phases (engine/*.py)\<close>

text \<open>The dict that \<open>execute_assassin_phase\<close> returns.\<close>

record assassin_result =
  merlin_killed :: bool
  assassin_id :: int
  target_id :: int
  morgana_advice :: "pystr option"

text \<open>
  What a game works on: the engine's \<open>state\<close> (\<open>game\<close>) and \<open>assassin_phase_data\<close>, the
  store of the \<open>MissionRecord\<close> objects, and the numbers of oracle calls and of
  \<open>random.choice\<close> calls made so far.
\<close>

record world =
  game :: GameState
  store :: "MissionRecord list"
  llm_calls :: nat
  rnd_calls :: nat
  assassin_phase_data :: "assassin_result option"

text \<open>
  \<open>agents[pid].player\<close>: \<open>_create_agents\<close> makes one agent for each player, under the key
  \<open>player.player_id\<close>, and the agent holds that player object.
\<close>

definition agent_player :: "GameState \<Rightarrow> int \<Rightarrow> error + Player" where
  "agent_player s pid =
     (case filter (\<lambda>p. player_id p = pid) (players s) of
        [] \<Rightarrow> Inl KeyError
      | p # ps \<Rightarrow> Inr (last (p # ps)))"

text \<open>\<open>_call_llm\<close>: the next answer of the oracle.\<close>

definition ask :: "env \<Rightarrow> world \<Rightarrow> response \<times> world" where
  "ask e w = (llm e (llm_calls w), w\<lparr>llm_calls := llm_calls w + 1\<rparr>)"

text \<open>An assignment to a field of the record at address \<open>a\<close>.\<close>

definition update_record :: "ref \<Rightarrow> (MissionRecord \<Rightarrow> MissionRecord) \<Rightarrow> world \<Rightarrow> world" where
  "update_record a f w = w\<lparr>store := (store w)[a := f (store w ! a)]\<rparr>"

subsection \<open>Setup and night (engine/game\_engine.py, engine/night\_phase.py)\<close>

text \<open>
  \<open>GameEngine.setup\<close>, given the outcome of its two random draws: \<open>role_ids\<close> after
  \<open>random.shuffle\<close> and the leader drawn by \<open>random.randint(0, PLAYER_COUNT - 1)\<close>.
\<close>

definition seat :: "role_name list \<Rightarrow> nat \<Rightarrow> Player" where
  "seat role_ids i =
     \<lparr>player_id = int i, role_info = ROLES (role_ids ! i), is_leader = False, known_evil = [],
      known_merlin_or_morgana = [], known_allies = []\<rparr>"

definition update_player :: "int \<Rightarrow> (Player \<Rightarrow> Player) \<Rightarrow> GameState \<Rightarrow> error + GameState" where
  "update_player i f s =
     (if 0 \<le> i \<and> i < int (length (players s))
      then Inr (s\<lparr>players := (players s)[nat i := f (players s ! nat i)]\<rparr>)
      else if - int (length (players s)) \<le> i \<and> i < 0
        then Inr (s\<lparr>players := (players s)[nat (int (length (players s)) + i)
                        := f (players s ! nat (int (length (players s)) + i))]\<rparr>)
      else Inl IndexError)"

definition setup_game :: "role_name list \<Rightarrow> int \<Rightarrow> error + GameState" where
  "setup_game role_ids leader =
     (if int (length role_ids) < PLAYER_COUNT then Inl IndexError
      else update_player leader (\<lambda>p. p\<lparr>is_leader := True\<rparr>)
             (GameState_init\<lparr>players := map (seat role_ids) [0..<nat PLAYER_COUNT],
                              current_leader_idx := leader\<rparr>))"

text \<open>
  \<open>execute_night_phase\<close>. The first loop leaves in \<open>merlin_id\<close>, \<open>percival_id\<close> and
  \<open>morgana_id\<close> the id of the last player with the role, and collects \<open>evil_ids\<close>.
\<close>

definition last_id_with :: "role_name \<Rightarrow> Player list \<Rightarrow> int option" where
  "last_id_with r ps =
     (case filter (\<lambda>p. role_id (role_info p) = r) ps of
        [] \<Rightarrow> None
      | p # qs \<Rightarrow> Some (player_id (last (p # qs))))"

fun know_allies :: "int list \<Rightarrow> int list \<Rightarrow> GameState \<Rightarrow> error + GameState" where
  "know_allies evil_ids [] s = Inr s"
| "know_allies evil_ids (eid # eids) s =
     (case update_player eid (\<lambda>p. p\<lparr>known_allies := filter (\<lambda>e. e \<noteq> eid) evil_ids\<rparr>) s of
        Inl err \<Rightarrow> Inl err
      | Inr s1 \<Rightarrow> know_allies evil_ids eids s1)"

definition execute_night_phase :: "GameState \<Rightarrow> error + GameState" where
  "execute_night_phase s =
     (let merlin_id = last_id_with merlin (players s);
          percival_id = last_id_with percival (players s);
          morgana_id = last_id_with morgana (players s);
          evil_ids = map player_id (filter is_evil (players s))
      in case (case merlin_id of
                 None \<Rightarrow> Inr s
               | Some m \<Rightarrow> update_player m (\<lambda>p. p\<lparr>known_evil := evil_ids\<rparr>) s) of
           Inl err \<Rightarrow> Inl err
         | Inr s1 \<Rightarrow>
             (case know_allies evil_ids evil_ids s1 of
                Inl err \<Rightarrow> Inl err
              | Inr s2 \<Rightarrow>
                  (case (percival_id, merlin_id, morgana_id) of
                     (Some pc, Some m, Some mg) \<Rightarrow>
                       update_player pc (\<lambda>p. p\<lparr>known_merlin_or_morgana := [m, mg]\<rparr>) s2
                   | _ \<Rightarrow> Inr s2)))"

subsection \<open>Team proposal (engine/team\_phase.py)\<close>

definition execute_team_phase :: "env \<Rightarrow> world \<Rightarrow> error + (world \<times> int list)" where
  "execute_team_phase e w =
     (case current_leader (game w) of
        Inl err \<Rightarrow> Inl err
      | Inr leader \<Rightarrow>
     (case agent_player (game w) (player_id leader) of
        Inl err \<Rightarrow> Inl err
      | Inr leader_agent \<Rightarrow>
     (case getitem MISSION_TEAM_SIZES (current_round (game w)) of
        Inl err \<Rightarrow> Inl err
      | Inr team_size \<Rightarrow>
     (case parse_team e (player_id leader_agent) (fst (ask e w)) team_size (rnd_calls w) of
        Inl err \<Rightarrow> Inl err
      | Inr (team0, n0) \<Rightarrow>
     (let team1 = fromkeys (filter (\<lambda>t. 0 \<le> t \<and> t < 6) team0)
      in case (if int (length team1) \<noteq> team_size
               then pad_loop e team_size team1 (filter (\<lambda>i. i \<notin> set team1) [0..5]) n0
               else Inr (team1, n0)) of
           Inl err \<Rightarrow> Inl err
         | Inr (team2, n2) \<Rightarrow>
             Inr ((snd (ask e w))\<lparr>rnd_calls := n2,
                                  game := (game w)\<lparr>proposed_team := team2\<rparr>\<rparr>, team2))))))"

subsection \<open>Discussion and vote (engine/vote\_phase.py)\<close>

text \<open>The loop of \<open>execute_discussion\<close> over \<open>speaking_order\<close>, for the record at \<open>a\<close>.\<close>

fun speak_all :: "env \<Rightarrow> ref \<Rightarrow> int list \<Rightarrow> world \<Rightarrow> error + world" where
  "speak_all e a [] w = Inr w"
| "speak_all e a (pid # pids) w =
     (case get_player (game w) pid of
        Inl err \<Rightarrow> Inl err
      | Inr player \<Rightarrow>
     (case agent_player (game w) pid of
        Inl err \<Rightarrow> Inl err
      | Inr agent \<Rightarrow>
          speak_all e a pids
            (update_record a (\<lambda>r. r\<lparr>speeches := setitem (speeches r) pid (reply (fst (ask e w)))\<rparr>)
               (snd (ask e w)))))"

definition speaking_order :: "GameState \<Rightarrow> int list" where
  "speaking_order s =
     map (\<lambda>i. (current_leader_idx s + int i) mod int (length (players s))) [1..<length (players s)]
     @ [current_leader_idx s]"

definition execute_discussion :: "env \<Rightarrow> ref \<Rightarrow> world \<Rightarrow> error + world" where
  "execute_discussion e a w =
     (case current_leader (game w) of
        Inl err \<Rightarrow> Inl err
      | Inr leader \<Rightarrow> speak_all e a (speaking_order (game w)) w)"

text \<open>
  The loop of \<open>execute_vote\<close> over \<open>range(len(state.players))\<close>, with the two counters.
\<close>

fun vote_all :: "env \<Rightarrow> ref \<Rightarrow> int list \<Rightarrow> world \<times> int \<times> int \<Rightarrow> error + (world \<times> int \<times> int)" where
  "vote_all e a [] acc = Inr acc"
| "vote_all e a (pid # pids) (w, approvals, rejections) =
     (case get_player (game w) pid of
        Inl err \<Rightarrow> Inl err
      | Inr player \<Rightarrow>
     (case agent_player (game w) pid of
        Inl err \<Rightarrow> Inl err
      | Inr agent \<Rightarrow>
     (case parse_vote (is_good agent) (fst (ask e w)) of
        Inl err \<Rightarrow> Inl err
      | Inr voted \<Rightarrow>
          vote_all e a pids
            (update_record a (\<lambda>r. r\<lparr>team_votes := setitem (team_votes r) pid voted\<rparr>) (snd (ask e w)),
             if voted then approvals + 1 else approvals,
             if voted then rejections else rejections + 1))))"

definition execute_vote :: "env \<Rightarrow> ref \<Rightarrow> world \<Rightarrow> error + (world \<times> bool)" where
  "execute_vote e a w =
     (case current_leader (game w) of
        Inl err \<Rightarrow> Inl err
      | Inr leader \<Rightarrow>
     (case vote_all e a (map int [0..<length (players (game w))]) (w, 0, 0) of
        Inl err \<Rightarrow> Inl err
      | Inr (w1, approvals, rejections) \<Rightarrow> Inr (w1, approvals > rejections)))"

subsection \<open>Mission (engine/mission\_phase.py)\<close>

text \<open>
  \<open>Agent.mission_action\<close>: a good player's vote is success, and the oracle is not asked.
\<close>

definition mission_action :: "env \<Rightarrow> Player \<Rightarrow> world \<Rightarrow> error + (bool \<times> world)" where
  "mission_action e self w =
     (if is_good self then Inr (True, w)
      else (case parse_mission (fst (ask e w)) of
              Inl err \<Rightarrow> Inl err
            | Inr action \<Rightarrow> Inr (action, snd (ask e w))))"

text \<open>The loop of \<open>execute_mission\<close> over \<open>state.proposed_team\<close>, with the two counters.\<close>

fun act_all :: "env \<Rightarrow> ref \<Rightarrow> int list \<Rightarrow> world \<times> int \<times> int \<Rightarrow> error + (world \<times> int \<times> int)" where
  "act_all e a [] acc = Inr acc"
| "act_all e a (pid # pids) (w, successes, fails) =
     (case agent_player (game w) pid of
        Inl err \<Rightarrow> Inl err
      | Inr agent \<Rightarrow>
     (case get_player (game w) pid of
        Inl err \<Rightarrow> Inl err
      | Inr player \<Rightarrow>
     (case mission_action e agent w of
        Inl err \<Rightarrow> Inl err
      | Inr (action_success, w1) \<Rightarrow>
          act_all e a pids
            (update_record a (\<lambda>r. r\<lparr>mission_votes := setitem (mission_votes r) pid action_success\<rparr>) w1,
             if action_success then successes + 1 else successes,
             if action_success then fails else fails + 1))))"

definition execute_mission :: "env \<Rightarrow> ref \<Rightarrow> world \<Rightarrow> error + (world \<times> bool)" where
  "execute_mission e a w =
     (case getitem MISSION_FAIL_REQUIRED (current_round (game w)) of
        Inl err \<Rightarrow> Inl err
      | Inr fail_required \<Rightarrow>
     (case act_all e a (proposed_team (game w)) (w, 0, 0) of
        Inl err \<Rightarrow> Inl err
      | Inr (w1, successes, fails) \<Rightarrow>
          (let mission_success = (fails < fail_required);
               w2 = update_record a (\<lambda>r. r\<lparr>success := Some mission_success\<rparr>) w1
           in Inr (w2\<lparr>game := (game w2)\<lparr>mission_results := mission_results (game w2) @ [mission_success]\<rparr>\<rparr>,
                   mission_success))))"

subsection \<open>Assassination (engine/assassin\_phase.py)\<close>

definition first_with :: "role_name \<Rightarrow> Player list \<Rightarrow> Player option" where
  "first_with r ps = (case filter (\<lambda>p. role_id (role_info p) = r) ps of [] \<Rightarrow> None | p # qs \<Rightarrow> Some p)"

text \<open>
  The advice of Morgana: when there is a player with that role, her agent speaks; the
  result is the advice and the world after the call.
\<close>

definition morgana_speaks :: "env \<Rightarrow> Player option \<Rightarrow> world \<Rightarrow> error + (pystr option \<times> world)" where
  "morgana_speaks e m w =
     (case m of
        None \<Rightarrow> Inr (None, w)
      | Some p \<Rightarrow>
          (case agent_player (game w) (player_id p) of
             Inl err \<Rightarrow> Inl err
           | Inr morgana_agent \<Rightarrow> Inr (Some (reply (fst (ask e w))), snd (ask e w))))"

text \<open>
  The check after \<open>assassinate\<close>: a target that is the assassin or Morgana is replaced
  by a random good player.
\<close>

definition choose_again :: "env \<Rightarrow> Player \<Rightarrow> Player option \<Rightarrow> int \<times> nat \<Rightarrow> GameState \<Rightarrow> error + (int \<times> nat)" where
  "choose_again e killer m tn s =
     (if fst tn = player_id killer \<or> (case m of None \<Rightarrow> False | Some p \<Rightarrow> fst tn = player_id p)
      then (case random_choice e (snd tn) (map player_id (filter is_good (players s))) of
              Inl err \<Rightarrow> Inl err
            | Inr t \<Rightarrow> Inr (t, snd tn + 1))
      else Inr tn)"

definition execute_assassin_phase :: "env \<Rightarrow> world \<Rightarrow> error + (world \<times> assassin_result)" where
  "execute_assassin_phase e w =
     (case (filter (\<lambda>p. is_assassin (role_info p)) (players (game w)), last_id_with merlin (players (game w))) of
        ([], _) \<Rightarrow>
          Inr (w, \<lparr>merlin_killed = False, assassin_id = - 1, target_id = - 1, morgana_advice = None\<rparr>)
      | (_ # _, None) \<Rightarrow>
          Inr (w, \<lparr>merlin_killed = False, assassin_id = - 1, target_id = - 1, morgana_advice = None\<rparr>)
      | (k # ks, Some merlin_id) \<Rightarrow>
     (case agent_player (game w) (player_id (last (k # ks))) of
        Inl err \<Rightarrow> Inl err
      | Inr assassin_agent \<Rightarrow>
     (case morgana_speaks e (first_with morgana (players (game w))) w of
        Inl err \<Rightarrow> Inl err
      | Inr (advice, w1) \<Rightarrow>
     (case parse_target e assassin_agent (fst (ask e w1)) (rnd_calls w1) of
        Inl err \<Rightarrow> Inl err
      | Inr tn \<Rightarrow>
     (case choose_again e (last (k # ks)) (first_with morgana (players (game w))) tn (game w) of
        Inl err \<Rightarrow> Inl err
      | Inr (target, n) \<Rightarrow>
     (case get_player (game w) target of
        Inl err \<Rightarrow> Inl err
      | Inr target_player \<Rightarrow>
          Inr ((snd (ask e w1))\<lparr>rnd_calls := n\<rparr>,
               \<lparr>merlin_killed = (target = merlin_id), assassin_id = player_id (last (k # ks)),
                target_id = target, morgana_advice = advice\<rparr>)))))))"

subsection \<open>The run of a game (engine/game\_engine.py)\<close>

text \<open>
  The four end reasons, Chinese literals of the source: "5 team proposals rejected in a row,
  the evil side wins!" (\<open>REASON_REJECTIONS\<close>), "Merlin was assassinated! The evil side turns
  the game and wins!" (\<open>REASON_MERLIN\<close>), "the good side completed three missions and Merlin
  lives! The good side wins!" (\<open>REASON_GOOD\<close>) and "three missions failed! The evil side
  wins!" (\<open>REASON_FAILURES\<close>).
\<close>

definition REASON_REJECTIONS :: pystr where
  "REASON_REJECTIONS =
     [36830, 32493, 53, 27425, 32452, 38431, 34987, 21542, 20915, 65292, 37034, 24694, 38453,
      33829, 33719, 32988, 65281]"

definition REASON_MERLIN :: pystr where
  "REASON_MERLIN =
     [26757, 26519, 34987, 21050, 26432, 65281, 37034, 24694, 38453, 33829, 36870, 36716, 33719,
      32988, 65281]"

definition REASON_GOOD :: pystr where
  "REASON_GOOD =
     [27491, 20041, 38453, 33829, 23436, 25104, 19977, 27425, 20219, 21153, 19988, 26757, 26519,
      23384, 27963, 65281, 27491, 20041, 38453, 33829, 33719, 32988, 65281]"

definition REASON_FAILURES :: pystr where
  "REASON_FAILURES =
     [19977, 27425, 20219, 21153, 22833, 36133, 65281, 37034, 24694, 38453, 33829, 33719, 32988,
      65281]"

definition end_game :: "pystr \<Rightarrow> pystr \<Rightarrow> world \<Rightarrow> world" where
  "end_game who why w = w\<lparr>game := (game w)\<lparr>game_over := True, winner := Some who, end_reason := why\<rparr>\<rparr>"

text \<open>
  One pass of the loop \<open>while not team_approved\<close>, up to and including
  \<open>self.state.mission_records.append(record)\<close>: the team, a new record (at the next free
  address), the discussion, the vote. The result is the world, the record and
  \<open>team_approved\<close>.
\<close>

definition proposal_attempt :: "env \<Rightarrow> int \<Rightarrow> world \<Rightarrow> error + (world \<times> ref \<times> bool)" where
  "proposal_attempt e rnum w =
     (case execute_team_phase e w of
        Inl err \<Rightarrow> Inl err
      | Inr (w1, members) \<Rightarrow>
     (case execute_discussion e (length (store w1))
             (w1\<lparr>store := store w1 @ [new_record (rnum + 1) (current_leader_idx (game w1)) members]\<rparr>) of
        Inl err \<Rightarrow> Inl err
      | Inr w2 \<Rightarrow>
     (case execute_vote e (length (store w1)) w2 of
        Inl err \<Rightarrow> Inl err
      | Inr (w3, team_approved) \<Rightarrow>
          Inr (w3\<lparr>game := (game w3)\<lparr>mission_records := mission_records (game w3) @ [length (store w1)]\<rparr>\<rparr>,
               length (store w1), team_approved))))"

text \<open>
  What the phases leave of the game state, needed for the termination of the proposal loop:
  discussion and vote do not write to it, the team phase writes the proposed team.
\<close>

lemma update_record_game [simp]: "game (update_record a f w) = game w"
  by (simp add: update_record_def)

lemma ask_game [simp]: "game (snd (ask e w)) = game w"
  by (simp add: ask_def)

lemma speak_all_game: "speak_all e a pids w = Inr w' \<Longrightarrow> game w' = game w"
  by (induction pids arbitrary: w) (auto split: sum.splits)

lemma vote_all_game: "vote_all e a pids (w, x, y) = Inr (w', x', y') \<Longrightarrow> game w' = game w"
  by (induction pids arbitrary: w x y) (auto split: sum.splits)

lemma execute_discussion_game: "execute_discussion e a w = Inr w' \<Longrightarrow> game w' = game w"
  by (auto simp: execute_discussion_def split: sum.splits dest: speak_all_game)

lemma execute_vote_game: "execute_vote e a w = Inr (w', ok) \<Longrightarrow> game w' = game w"
  by (auto simp: execute_vote_def split: sum.splits dest: vote_all_game)

lemma execute_team_phase_game:
  "execute_team_phase e w = Inr (w', members) \<Longrightarrow> game w' = (game w)\<lparr>proposed_team := members\<rparr>"
  by (auto simp: execute_team_phase_def Let_def split: sum.splits if_splits prod.splits)

lemma proposal_attempt_game:
  assumes "proposal_attempt e rnum w = Inr (w', a, ok)"
  shows "\<exists>members. game w' = (game w)\<lparr>proposed_team := members, mission_records := mission_records (game w) @ [a]\<rparr>"
  using assms
  by (auto simp: proposal_attempt_def split: sum.splits prod.splits
      dest!: execute_team_phase_game execute_discussion_game execute_vote_game)

lemma next_leader_rejects: "next_leader s = Inr s' \<Longrightarrow> consecutive_rejects s' = consecutive_rejects s"
  by (auto simp: next_leader_def Let_def split: if_splits)

lemma rejected_attempt_counts:
  assumes "proposal_attempt e rnum w = Inr (w1, a, ok)"
    and "next_leader ((game w1)\<lparr>consecutive_rejects := consecutive_rejects (game w1) + 1\<rparr>) = Inr s"
  shows "consecutive_rejects s = consecutive_rejects (game w) + 1"
proof -
  from assms(1) obtain members where
    "game w1 = (game w)\<lparr>proposed_team := members, mission_records := mission_records (game w) @ [a]\<rparr>"
    using proposal_attempt_game by blast
  then show ?thesis using next_leader_rejects[OF assms(2)] by simp
qed

text \<open>
  The loop \<open>while not team_approved\<close> of \<open>GameEngine.run\<close>. \<open>Inr (w, Some a)\<close>: the
  team was approved, with record \<open>a\<close>. \<open>Inr (w, None)\<close>: the fifth rejection, after which
  \<open>run\<close> returns. The loop ends because every pass that goes round has counted one more
  rejection.
\<close>

function proposal_loop :: "env \<Rightarrow> int \<Rightarrow> world \<Rightarrow> error + (world \<times> ref option)" where
  "proposal_loop e rnum w =
     (case proposal_attempt e rnum w of
        Inl err \<Rightarrow> Inl err
      | Inr (w1, a, team_approved) \<Rightarrow>
          if team_approved then Inr (w1, Some a)
          else (let w2 = w1\<lparr>game := (game w1)\<lparr>consecutive_rejects := consecutive_rejects (game w1) + 1\<rparr>\<rparr>
                in if consecutive_rejects (game w2) \<ge> MAX_TEAM_VOTES
                   then Inr (end_game (asc ''evil'') REASON_REJECTIONS w2, None)
                   else (case next_leader (game w2) of
                           Inl err \<Rightarrow> Inl err
                         | Inr s \<Rightarrow> proposal_loop e rnum (w2\<lparr>game := s\<rparr>))))"
  by pat_completeness auto
termination
proof (relation "measure (\<lambda>(e, rnum, w). nat (MAX_TEAM_VOTES - consecutive_rejects (game w)))")
  fix e rnum w b w1 y a ok w2 s
  assume "proposal_attempt e rnum w = Inr b" and "(w1, y) = b" and "(a, ok) = y"
    and w2: "w2 = w1\<lparr>game := (game w1)\<lparr>consecutive_rejects := consecutive_rejects (game w1) + 1\<rparr>\<rparr>"
    and below: "\<not> MAX_TEAM_VOTES \<le> consecutive_rejects (game w2)"
    and rotated: "next_leader (game w2) = Inr s"
  then have "proposal_attempt e rnum w = Inr (w1, a, ok)"
    by simp
  with rotated w2 have "consecutive_rejects s = consecutive_rejects (game w) + 1"
    by (simp add: rejected_attempt_counts)
  moreover from w2 rotated have "consecutive_rejects s = consecutive_rejects (game w2)"
    by (simp add: next_leader_rejects)
  ultimately show "((e, rnum, w2\<lparr>game := s\<rparr>), (e, rnum, w))
       \<in> measure (\<lambda>(e, rnum, w). nat (MAX_TEAM_VOTES - consecutive_rejects (game w)))"
    using below by simp
qed simp

declare proposal_loop.simps [simp del]


text \<open>
  The check of the winner after a mission (\<open>self.state.good_wins_count >= 3\<close> and what
  follows). The flag says whether \<open>run\<close> returns.
\<close>

definition check_victory :: "env \<Rightarrow> world \<Rightarrow> error + (world \<times> bool)" where
  "check_victory e w =
     (if good_wins_count (game w) \<ge> 3
      then (case execute_assassin_phase e w of
              Inl err \<Rightarrow> Inl err
            | Inr (w1, res) \<Rightarrow>
                Inr ((if merlin_killed res then end_game (asc ''evil'') REASON_MERLIN
                      else end_game (asc ''good'') REASON_GOOD)
                       (w1\<lparr>assassin_phase_data := Some res\<rparr>), True))
      else if evil_wins_count (game w) \<ge> 3
        then Inr (end_game (asc ''evil'') REASON_FAILURES w, True)
      else Inr (w, False))"

text \<open>The body of \<open>for round_num in range(5)\<close>; the flag says whether \<open>run\<close> returns.\<close>

definition run_round :: "env \<Rightarrow> int \<Rightarrow> world \<Rightarrow> error + (world \<times> bool)" where
  "run_round e rnum w =
     (case proposal_loop e rnum
             (w\<lparr>game := (game w)\<lparr>current_round := rnum, consecutive_rejects := 0\<rparr>\<rparr>) of
        Inl err \<Rightarrow> Inl err
      | Inr (w1, None) \<Rightarrow> Inr (w1, True)
      | Inr (w1, Some a) \<Rightarrow>
     (case execute_mission e a w1 of
        Inl err \<Rightarrow> Inl err
      | Inr (w2, mission_success) \<Rightarrow>
     (case check_victory e w2 of
        Inl err \<Rightarrow> Inl err
      | Inr (w3, True) \<Rightarrow> Inr (w3, True)
      | Inr (w3, False) \<Rightarrow>
          (case next_leader (game w3) of
             Inl err \<Rightarrow> Inl err
           | Inr s \<Rightarrow> Inr (w3\<lparr>game := s\<rparr>, False)))))"

fun run_rounds :: "env \<Rightarrow> int list \<Rightarrow> world \<Rightarrow> error + world" where
  "run_rounds e [] w = Inr w"
| "run_rounds e (rnum # rnums) w =
     (case run_round e rnum w of
        Inl err \<Rightarrow> Inl err
      | Inr (w1, finished) \<Rightarrow> if finished then Inr w1 else run_rounds e rnums w1)"

text \<open>
  \<open>GameEngine.run\<close>, given the two random draws of the setup: setup, night, then the
  rounds 0 to 4.
\<close>

definition start :: "GameState \<Rightarrow> world" where
  "start s = \<lparr>game = s, store = [], llm_calls = 0, rnd_calls = 0, assassin_phase_data = None\<rparr>"

definition run :: "env \<Rightarrow> role_name list \<Rightarrow> int \<Rightarrow> error + world" where
  "run e role_ids leader =
     (case setup_game role_ids leader of
        Inl err \<Rightarrow> Inl err
      | Inr s \<Rightarrow>
     (case execute_night_phase s of
        Inl err \<Rightarrow> Inl err
      | Inr s1 \<Rightarrow> run_rounds e [0, 1, 2, 3, 4] (start s1)))"

subsection \<open>Helpers for stating the properties\<close>

text \<open>Several assignments \<open>d[k] = v\<close> in a row.\<close>

definition set_all :: "('k \<times> 'v) list \<Rightarrow> ('k \<times> 'v) list \<Rightarrow> ('k \<times> 'v) list" where
  "set_all d kvs = fold (\<lambda>kv d. setitem d (fst kv) (snd kv)) kvs d"

text \<open>
  Concrete inputs: the game after setup and night when the roles are dealt in the order
  merlin, percival, the two servants, morgana, assassin and player 0 leads; an answer of
  the oracle that is the JSON object with one key and one string value; and the answer
  \<open>{"team": 5}\<close>.
\<close>

definition example_game :: GameState where
  "example_game =
     projr (execute_night_phase
       (projr (setup_game [merlin, percival, loyal_servant_1, loyal_servant_2, morgana, assassin] 0)))"

definition answer :: "pystr \<Rightarrow> pystr \<Rightarrow> response" where
  "answer k v =
     \<lparr>reply = asc ''{'' @ [34] @ k @ [34] @ asc '': '' @ [34] @ v @ [34] @ asc ''}'',
      json_object = Parsed [(k, JStr v)], player_numbers = [], numbers = []\<rparr>"

definition bad_team_reply :: response where
  "bad_team_reply =
     \<lparr>reply = asc ''{'' @ [34] @ asc ''team'' @ [34] @ asc '': 5}'',
      json_object = Parsed [(asc ''team'', JInt 5)], player_numbers = [], numbers = [5]\<rparr>"

(*DEFS*)

section \<open>Properties of the oracle wrapper and of the memory manager\<close>

lemma slice_bound_neg: "0 < k \<Longrightarrow> slice_bound n (- k) = n - nat k"
  by (simp add: slice_bound_def)

lemma slice_from_neg_length:
  "0 < k \<Longrightarrow> length (slice_from xs (- k)) = min (length xs) (nat k)"
  by (simp add: slice_from_def slice_bound_neg)

lemma compress_recent:
  "recent (fst (compress K api mw)) = slice_from (recent (fst mw)) (- K)"
  by (simp add: compress_def Let_def split: prod.splits)

lemma add_bounded:
  assumes "0 < K" "K < T"
  shows "int (length (recent (fst (add T K api r c mw)))) < T"
  using assms by (auto simp: add_def Let_def compress_recent slice_from_neg_length)

lemma add_all_snoc:
  "add_all T K api (xs @ [x]) mw = add T K api (role x) (content x) (add_all T K api xs mw)"
  by (induction xs arbitrary: mw) simp_all

lemma add_all_bounded:
  assumes "0 < K" "K < T" "msgs \<noteq> []"
  shows "int (length (recent (fst (add_all T K api msgs mw)))) < T"
proof (cases msgs rule: rev_cases)
  case Nil
  with assms(3) show ?thesis by simp
next
  case (snoc xs x)
  then show ?thesis using add_bounded[OF assms(1,2)] by (simp add: add_all_snoc)
qed

lemma add_below:
  "int (length (recent m)) + 1 < T \<Longrightarrow>
   add T K api r c (m, w) = (m\<lparr>recent := recent m @ [\<lparr>role = r, content = c\<rparr>]\<rparr>, w)"
  by (simp add: add_def Let_def)

lemma add_reaching:
  "int (length (recent m)) + 1 \<ge> T \<Longrightarrow>
   add T K api r c (m, w) = compress K api (m\<lparr>recent := recent m @ [\<lparr>role = r, content = c\<rparr>]\<rparr>, w)"
  by (simp add: add_def Let_def)

lemma compress_success:
  assumes "strip (format_messages_for_summary (player_name m) (slice_to (recent m) (- K))) \<noteq> []"
    and "\<not> startswith (fst (chat api w)) LLM_FAILED"
  shows "compress K api (m, w) =
           (m\<lparr>summary := fst (chat api w), recent := slice_from (recent m) (- K),
              compress_count := compress_count m + 1\<rparr>, snd (chat api w))"
  using assms by (cases "chat api w") (simp add: compress_def Let_def)

lemma compress_failed:
  assumes "strip (format_messages_for_summary (player_name m) (slice_to (recent m) (- K))) \<noteq> []"
    and "startswith (fst (chat api w)) LLM_FAILED"
  shows "compress K api (m, w) = (m\<lparr>recent := slice_from (recent m) (- K)\<rparr>, snd (chat api w))"
  using assms by (cases "chat api w") (simp add: compress_def Let_def)

lemma compress_skipped:
  assumes "strip (format_messages_for_summary (player_name m) (slice_to (recent m) (- K))) = []"
  shows "compress K api (m, w) = (m\<lparr>recent := slice_from (recent m) (- K)\<rparr>, w)"
  using assms by (simp add: compress_def Let_def)

lemma four_two_example:
  assumes sub1: "strip (format_messages_for_summary name [a1, a2]) \<noteq> []"
    and c1: "chat api w0 = (s1, w1)" and ok1: "\<not> startswith s1 LLM_FAILED"
    and sub2: "strip (format_messages_for_summary name [a3, a4]) \<noteq> []"
    and c2: "chat api w1 = (s2, w2)" and ok2: "\<not> startswith s2 LLM_FAILED"
  shows "add_all 4 2 api [a1, a2, a3, a4] (memory_init name, w0)
           = (\<lparr>player_name = name, summary = s1, recent = [a3, a4], compress_count = 1\<rparr>, w1)"
    and "add_all 4 2 api [a1, a2, a3, a4, a5] (memory_init name, w0)
           = (\<lparr>player_name = name, summary = s1, recent = [a3, a4, a5], compress_count = 1\<rparr>, w1)"
    and "add_all 4 2 api [a1, a2, a3, a4, a5, a6] (memory_init name, w0)
           = (\<lparr>player_name = name, summary = s2, recent = [a5, a6], compress_count = 2\<rparr>, w2)"
proof -
  let ?m = "\<lambda>s xs n. \<lparr>player_name = name, summary = s, recent = xs, compress_count = n\<rparr>"
  have s1: "add 4 2 api (role a1) (content a1) (memory_init name, w0) = (?m [] [a1] 0, w0)"
    by (simp add: add_below memory_init_def)
  have s2: "add 4 2 api (role a2) (content a2) (?m [] [a1] 0, w0) = (?m [] [a1, a2] 0, w0)"
    by (simp add: add_below)
  have s3: "add 4 2 api (role a3) (content a3) (?m [] [a1, a2] 0, w0) = (?m [] [a1, a2, a3] 0, w0)"
    by (simp add: add_below)
  have s4: "add 4 2 api (role a4) (content a4) (?m [] [a1, a2, a3] 0, w0) = (?m s1 [a3, a4] 1, w1)"
    using sub1 c1 ok1
    by (simp add: add_reaching compress_def Let_def slice_to_def slice_from_def slice_bound_def)
  have s5: "add 4 2 api (role a5) (content a5) (?m s1 [a3, a4] 1, w1) = (?m s1 [a3, a4, a5] 1, w1)"
    by (simp add: add_below)
  have s6: "add 4 2 api (role a6) (content a6) (?m s1 [a3, a4, a5] 1, w1) = (?m s2 [a5, a6] 2, w2)"
    using sub2 c2 ok2
    by (simp add: add_reaching compress_def Let_def slice_to_def slice_from_def slice_bound_def)
  show "add_all 4 2 api [a1, a2, a3, a4] (memory_init name, w0) = (?m s1 [a3, a4] 1, w1)"
    by (simp add: s1 s2 s3 s4)
  show "add_all 4 2 api [a1, a2, a3, a4, a5] (memory_init name, w0) = (?m s1 [a3, a4, a5] 1, w1)"
    by (simp add: s1 s2 s3 s4 s5)
  show "add_all 4 2 api [a1, a2, a3, a4, a5, a6] (memory_init name, w0) = (?m s2 [a5, a6] 2, w2)"
    by (simp add: s1 s2 s3 s4 s5 s6)
qed

lemma call_with_retry_exhausted:
  assumes "try_request (api (api_calls w)) = Inl e1"
    and "try_request (api (api_calls w + 1)) = Inl e2"
    and "try_request (api (api_calls w + 2)) = Inl e3"
  shows "call_with_retry api w =
           (failure_string (Some e3), w\<lparr>api_calls := api_calls w + 3, sleeps := sleeps w @ [2, 4]\<rparr>)"
  using assms
  by (simp add: call_with_retry_def retry_loop.simps MAX_RETRIES_def RETRY_DELAY_def)

lemma failure_string_marked: "startswith (failure_string e) LLM_FAILED"
  by (simp add: failure_string_def startswith_def)

lemma call_with_retry_cases:
  "(\<exists>k<3. (\<forall>j<k. \<exists>e. try_request (api (api_calls w + j)) = Inl e)
       \<and> try_request (api (api_calls w + k)) = Inr (fst (call_with_retry api w))
       \<and> api_calls (snd (call_with_retry api w)) = api_calls w + k + 1
       \<and> sleeps (snd (call_with_retry api w)) = sleeps w @ map (\<lambda>j. 2 * (int j + 1)) [0..<k])
   \<or> ((\<exists>e1 e2 e3. try_request (api (api_calls w)) = Inl e1
          \<and> try_request (api (api_calls w + 1)) = Inl e2
          \<and> try_request (api (api_calls w + 2)) = Inl e3
          \<and> fst (call_with_retry api w) = failure_string (Some e3))
       \<and> startswith (fst (call_with_retry api w)) LLM_FAILED
       \<and> snd (call_with_retry api w) = w\<lparr>api_calls := api_calls w + 3, sleeps := sleeps w @ [2, 4]\<rparr>)"
proof (cases "try_request (api (api_calls w))")
  case (Inr s)
  then have "call_with_retry api w = (s, w\<lparr>api_calls := api_calls w + 1\<rparr>)"
    by (simp add: call_with_retry_def retry_loop.simps MAX_RETRIES_def)
  with Inr show ?thesis by (intro disjI1 exI[of _ 0]) simp
next
  case a: (Inl e1)
  show ?thesis
  proof (cases "try_request (api (api_calls w + 1))")
    case (Inr s)
    with a have "call_with_retry api w = (s, w\<lparr>api_calls := api_calls w + 2, sleeps := sleeps w @ [2]\<rparr>)"
      by (simp add: call_with_retry_def retry_loop.simps MAX_RETRIES_def RETRY_DELAY_def)
    with Inr a show ?thesis by (intro disjI1 exI[of _ 1]) simp
  next
    case b: (Inl e2)
    show ?thesis
    proof (cases "try_request (api (api_calls w + 2))")
      case (Inr s)
      with a b have "call_with_retry api w = (s, w\<lparr>api_calls := api_calls w + 3, sleeps := sleeps w @ [2, 4]\<rparr>)"
        by (simp add: call_with_retry_def retry_loop.simps MAX_RETRIES_def RETRY_DELAY_def)
      moreover have "\<forall>j<2. \<exists>e. try_request (api (api_calls w + j)) = Inl e"
        using a b by (auto simp: less_Suc_eq numeral_2_eq_2)
      moreover have "map (\<lambda>j. 2 * (int j + 1)) [0..<2] = [2, 4]"
        by (simp add: numeral_2_eq_2)
      ultimately show ?thesis using Inr by (intro disjI1 exI[of _ 2]) simp
    next
      case c: (Inl e3)
      show ?thesis
        using call_with_retry_exhausted[OF a b c] a b c failure_string_marked by simp
    qed
  qed
qed

text \<open>Concrete inputs for the witnesses.\<close>

lemma chat_constant:
  "chat (\<lambda>n. Content (asc ''S'')) w = (asc ''S'', w\<lparr>api_calls := api_calls w + 1\<rparr>)"
  by (simp add: chat_def call_with_retry_def retry_loop.simps MAX_RETRIES_def try_request_def
      strip_def isspace_def asc_def clean_response_def startswith_def Let_def)

lemma two_answers_substantive:
  "strip (format_messages_for_summary (asc ''P'')
     [\<lparr>role = asc ''assistant'', content = asc ''ok''\<rparr>,
      \<lparr>role = asc ''assistant'', content = asc ''ok''\<rparr>]) \<noteq> []"
  by (simp add: format_messages_for_summary_def format_message_def strip_def isspace_def asc_def)

lemma S_not_failed: "\<not> startswith (asc ''S'') LLM_FAILED"
  by (simp add: startswith_def LLM_FAILED_def asc_def)

text \<open>
  C5. With \<open>0 < K < T\<close>: \<open>add\<close> appends the message and returns at once while the
  recent list stays shorter than \<open>T\<close>; when its length reaches \<open>T\<close> the compression runs
  inside \<open>add\<close>, and when the summary request succeeds (the segment to fold has substantive
  text and the answer does not carry the failure marker) the summary becomes the answer,
  recent becomes the last \<open>K\<close> messages and the counter goes up by one. With \<open>T = 4\<close>,
  \<open>K = 2\<close>, substantive messages and successful, non-empty answers: the 4th append leaves
  2 recent messages and a non-empty summary, the 5th leaves 3 recent messages with the
  summary, the counter and the request count unchanged, and the 6th compresses again and
  leaves the counter at 2.
\<close>

theorem append_then_compress:
  assumes "0 < K" and "K < T"
  shows
   "(int (length (recent m)) + 1 < T \<longrightarrow>
       add T K api r c (m, w) = (m\<lparr>recent := recent m @ [\<lparr>role = r, content = c\<rparr>]\<rparr>, w))
    \<and> (T \<le> int (length (recent m)) + 1
         \<and> strip (format_messages_for_summary (player_name m)
               (slice_to (recent m @ [\<lparr>role = r, content = c\<rparr>]) (- K))) \<noteq> []
         \<and> \<not> startswith (fst (chat api w)) LLM_FAILED
       \<longrightarrow> add T K api r c (m, w) =
             (m\<lparr>summary := fst (chat api w),
                recent := drop (length (recent m) + 1 - nat K) (recent m @ [\<lparr>role = r, content = c\<rparr>]),
                compress_count := compress_count m + 1\<rparr>, snd (chat api w))
           \<and> int (length (recent (fst (add T K api r c (m, w))))) = K)
    \<and> (strip (format_messages_for_summary name [a1, a2]) \<noteq> []
         \<and> chat api w0 = (s1, w1) \<and> \<not> startswith s1 LLM_FAILED \<and> s1 \<noteq> []
         \<and> strip (format_messages_for_summary name [a3, a4]) \<noteq> []
         \<and> chat api w1 = (s2, w2) \<and> \<not> startswith s2 LLM_FAILED
       \<longrightarrow> add_all 4 2 api [a1, a2, a3, a4] (memory_init name, w0)
             = (\<lparr>player_name = name, summary = s1, recent = [a3, a4], compress_count = 1\<rparr>, w1)
           \<and> summary (fst (add_all 4 2 api [a1, a2, a3, a4] (memory_init name, w0))) \<noteq> []
           \<and> add_all 4 2 api [a1, a2, a3, a4, a5] (memory_init name, w0)
             = (\<lparr>player_name = name, summary = s1, recent = [a3, a4, a5], compress_count = 1\<rparr>, w1)
           \<and> add_all 4 2 api [a1, a2, a3, a4, a5, a6] (memory_init name, w0)
             = (\<lparr>player_name = name, summary = s2, recent = [a5, a6], compress_count = 2\<rparr>, w2))"
proof (intro conjI impI)
  show "add T K api r c (m, w) = (m\<lparr>recent := recent m @ [\<lparr>role = r, content = c\<rparr>]\<rparr>, w)"
    if "int (length (recent m)) + 1 < T"
    using that by (rule add_below)
next
  assume h: "T \<le> int (length (recent m)) + 1
         \<and> strip (format_messages_for_summary (player_name m)
               (slice_to (recent m @ [\<lparr>role = r, content = c\<rparr>]) (- K))) \<noteq> []
         \<and> \<not> startswith (fst (chat api w)) LLM_FAILED"
  let ?m1 = "m\<lparr>recent := recent m @ [\<lparr>role = r, content = c\<rparr>]\<rparr>"
  have "add T K api r c (m, w) = compress K api (?m1, w)"
    using h by (simp add: add_reaching)
  also have "\<dots> = (?m1\<lparr>summary := fst (chat api w), recent := slice_from (recent ?m1) (- K),
              compress_count := compress_count ?m1 + 1\<rparr>, snd (chat api w))"
    using h by (intro compress_success) simp_all
  finally show eq: "add T K api r c (m, w) =
             (m\<lparr>summary := fst (chat api w),
                recent := drop (length (recent m) + 1 - nat K) (recent m @ [\<lparr>role = r, content = c\<rparr>]),
                compress_count := compress_count m + 1\<rparr>, snd (chat api w))"
    using assms by (simp add: slice_from_def slice_bound_neg)
  show "int (length (recent (fst (add T K api r c (m, w))))) = K"
    using assms h by (simp add: eq) arith
next
  assume h: "strip (format_messages_for_summary name [a1, a2]) \<noteq> []
         \<and> chat api w0 = (s1, w1) \<and> \<not> startswith s1 LLM_FAILED \<and> s1 \<noteq> []
         \<and> strip (format_messages_for_summary name [a3, a4]) \<noteq> []
         \<and> chat api w1 = (s2, w2) \<and> \<not> startswith s2 LLM_FAILED"
  then have sub1: "strip (format_messages_for_summary name [a1, a2]) \<noteq> []"
    and c1: "chat api w0 = (s1, w1)" and ok1: "\<not> startswith s1 LLM_FAILED" and ne: "s1 \<noteq> []"
    and sub2: "strip (format_messages_for_summary name [a3, a4]) \<noteq> []"
    and c2: "chat api w1 = (s2, w2)" and ok2: "\<not> startswith s2 LLM_FAILED"
    by simp_all
  note ex = four_two_example[OF sub1 c1 ok1 sub2 c2 ok2]
  show "add_all 4 2 api [a1, a2, a3, a4] (memory_init name, w0)
             = (\<lparr>player_name = name, summary = s1, recent = [a3, a4], compress_count = 1\<rparr>, w1)"
    by (rule ex(1))
  show "summary (fst (add_all 4 2 api [a1, a2, a3, a4] (memory_init name, w0))) \<noteq> []"
    using ne unfolding ex(1) by simp
  show "add_all 4 2 api [a1, a2, a3, a4, a5] (memory_init name, w0)
             = (\<lparr>player_name = name, summary = s1, recent = [a3, a4, a5], compress_count = 1\<rparr>, w1)"
    by (rule ex(2))
  show "add_all 4 2 api [a1, a2, a3, a4, a5, a6] (memory_init name, w0)
             = (\<lparr>player_name = name, summary = s2, recent = [a5, a6], compress_count = 2\<rparr>, w2)"
    by (rule ex(3))
qed

theorem append_then_compress_witness:
  "add 4 2 (\<lambda>n. Content (asc ''S'')) (asc ''assistant'') (asc ''ok'')
     (\<lparr>player_name = asc ''P'', summary = [], recent = [], compress_count = 0\<rparr>,
      \<lparr>api_calls = 0, sleeps = []\<rparr>)
   = (\<lparr>player_name = asc ''P'', summary = [],
       recent = [\<lparr>role = asc ''assistant'', content = asc ''ok''\<rparr>], compress_count = 0\<rparr>,
      \<lparr>api_calls = 0, sleeps = []\<rparr>)
   \<and> add 4 2 (\<lambda>n. Content (asc ''S'')) (asc ''assistant'') (asc ''ok'')
     (\<lparr>player_name = asc ''P'', summary = [],
       recent = [\<lparr>role = asc ''assistant'', content = asc ''ok''\<rparr>,
                 \<lparr>role = asc ''assistant'', content = asc ''ok''\<rparr>,
                 \<lparr>role = asc ''assistant'', content = asc ''ok''\<rparr>], compress_count = 0\<rparr>,
      \<lparr>api_calls = 0, sleeps = []\<rparr>)
   = (\<lparr>player_name = asc ''P'', summary = asc ''S'',
       recent = [\<lparr>role = asc ''assistant'', content = asc ''ok''\<rparr>,
                 \<lparr>role = asc ''assistant'', content = asc ''ok''\<rparr>], compress_count = 1\<rparr>,
      \<lparr>api_calls = 1, sleeps = []\<rparr>)
   \<and> add_all 4 2 (\<lambda>n. Content (asc ''S''))
       (replicate 6 \<lparr>role = asc ''assistant'', content = asc ''ok''\<rparr>)
       (memory_init (asc ''P''), \<lparr>api_calls = 0, sleeps = []\<rparr>)
   = (\<lparr>player_name = asc ''P'', summary = asc ''S'',
       recent = [\<lparr>role = asc ''assistant'', content = asc ''ok''\<rparr>,
                 \<lparr>role = asc ''assistant'', content = asc ''ok''\<rparr>], compress_count = 2\<rparr>,
      \<lparr>api_calls = 2, sleeps = []\<rparr>)"
proof -
  let ?a = "\<lparr>role = asc ''assistant'', content = asc ''ok''\<rparr>"
  let ?api = "\<lambda>n::nat. Content (asc ''S'')"
  let ?w = "\<lparr>api_calls = 0, sleeps = []\<rparr>"
  have six: "replicate 6 ?a = [?a, ?a, ?a, ?a, ?a, ?a]"
    by (simp add: numeral_eq_Suc)
  have ne: "asc ''S'' \<noteq> []" by (simp add: asc_def)
  show ?thesis
    using append_then_compress[where K = 2 and T = 4 and api = ?api and r = "asc ''assistant''"
        and c = "asc ''ok''" and w = ?w
        and m = "\<lparr>player_name = asc ''P'', summary = [], recent = [], compress_count = 0\<rparr>"]
      append_then_compress[where K = 2 and T = 4 and api = ?api and r = "asc ''assistant''"
        and c = "asc ''ok''" and w = ?w
        and m = "\<lparr>player_name = asc ''P'', summary = [], recent = [?a, ?a, ?a], compress_count = 0\<rparr>"
        and name = "asc ''P''" and ?a1.0 = ?a and ?a2.0 = ?a and ?a3.0 = ?a and ?a4.0 = ?a
        and ?a5.0 = ?a and ?a6.0 = ?a and ?w0.0 = ?w
        and ?s1.0 = "asc ''S''" and ?w1.0 = "\<lparr>api_calls = 1, sleeps = []\<rparr>"
        and ?s2.0 = "asc ''S''" and ?w2.0 = "\<lparr>api_calls = 2, sleeps = []\<rparr>"]
      two_answers_substantive S_not_failed ne
    by (simp add: chat_constant six slice_to_def slice_bound_def memory_init_def del: add_all.simps)
qed

text \<open>
  C6. \<open>_call_with_retry\<close> always returns a string: either one of at most three
  attempts succeeds and its cleaned content is returned, or all of the three attempts
  raise, \<open>time.sleep\<close> has been called with 2 and then 4 seconds, and the result is the
  failure string, which starts with the marker \<open>LLM_FAILED\<close>. When the compression
  receives a summary that starts with the marker, the summary and the compression counter
  stay as they were and recent becomes the last \<open>K\<close> messages.
\<close>

theorem retry_exhaustion_degrades:
  "((\<exists>k<3. (\<forall>j<k. \<exists>e. try_request (api (api_calls w + j)) = Inl e)
       \<and> try_request (api (api_calls w + k)) = Inr (fst (call_with_retry api w))
       \<and> api_calls (snd (call_with_retry api w)) = api_calls w + k + 1
       \<and> sleeps (snd (call_with_retry api w)) = sleeps w @ map (\<lambda>j. 2 * (int j + 1)) [0..<k])
    \<or> ((\<exists>e1 e2 e3. try_request (api (api_calls w)) = Inl e1
          \<and> try_request (api (api_calls w + 1)) = Inl e2
          \<and> try_request (api (api_calls w + 2)) = Inl e3
          \<and> fst (call_with_retry api w) = failure_string (Some e3))
       \<and> startswith (fst (call_with_retry api w)) LLM_FAILED
       \<and> snd (call_with_retry api w) = w\<lparr>api_calls := api_calls w + 3, sleeps := sleeps w @ [2, 4]\<rparr>))
   \<and> (0 < K
        \<and> strip (format_messages_for_summary (player_name m) (slice_to (recent m) (- K))) \<noteq> []
        \<and> startswith (fst (chat api w)) LLM_FAILED
      \<longrightarrow> compress K api (m, w) =
            (m\<lparr>recent := drop (length (recent m) - nat K) (recent m)\<rparr>, snd (chat api w)))"
proof (intro conjI impI)
  show "(\<exists>k<3. (\<forall>j<k. \<exists>e. try_request (api (api_calls w + j)) = Inl e)
       \<and> try_request (api (api_calls w + k)) = Inr (fst (call_with_retry api w))
       \<and> api_calls (snd (call_with_retry api w)) = api_calls w + k + 1
       \<and> sleeps (snd (call_with_retry api w)) = sleeps w @ map (\<lambda>j. 2 * (int j + 1)) [0..<k])
    \<or> ((\<exists>e1 e2 e3. try_request (api (api_calls w)) = Inl e1
          \<and> try_request (api (api_calls w + 1)) = Inl e2
          \<and> try_request (api (api_calls w + 2)) = Inl e3
          \<and> fst (call_with_retry api w) = failure_string (Some e3))
       \<and> startswith (fst (call_with_retry api w)) LLM_FAILED
       \<and> snd (call_with_retry api w) = w\<lparr>api_calls := api_calls w + 3, sleeps := sleeps w @ [2, 4]\<rparr>)"
    by (rule call_with_retry_cases)
next
  assume h: "0 < K
        \<and> strip (format_messages_for_summary (player_name m) (slice_to (recent m) (- K))) \<noteq> []
        \<and> startswith (fst (chat api w)) LLM_FAILED"
  then have "compress K api (m, w) = (m\<lparr>recent := slice_from (recent m) (- K)\<rparr>, snd (chat api w))"
    by (intro compress_failed) simp_all
  then show "compress K api (m, w) =
            (m\<lparr>recent := drop (length (recent m) - nat K) (recent m)\<rparr>, snd (chat api w))"
    using h by (simp add: slice_from_def slice_bound_neg)
qed

theorem retry_exhaustion_degrades_witness:
  "call_with_retry (\<lambda>n. No_choices) \<lparr>api_calls = 0, sleeps = []\<rparr>
     = (failure_string (Some ([65, 80, 73, 36820, 22238, 30340] @ asc ''choices'' @ [20026, 31354])),
        \<lparr>api_calls = 3, sleeps = [2, 4]\<rparr>)
   \<and> compress 2 (\<lambda>n. No_choices)
       (\<lparr>player_name = asc ''P'', summary = asc ''old'',
         recent = [\<lparr>role = asc ''assistant'', content = asc ''a''\<rparr>,
                   \<lparr>role = asc ''assistant'', content = asc ''b''\<rparr>,
                   \<lparr>role = asc ''assistant'', content = asc ''c''\<rparr>], compress_count = 7\<rparr>,
        \<lparr>api_calls = 0, sleeps = []\<rparr>)
     = (\<lparr>player_name = asc ''P'', summary = asc ''old'',
         recent = [\<lparr>role = asc ''assistant'', content = asc ''b''\<rparr>,
                   \<lparr>role = asc ''assistant'', content = asc ''c''\<rparr>], compress_count = 7\<rparr>,
        \<lparr>api_calls = 3, sleeps = [2, 4]\<rparr>)"
proof -
  let ?api = "\<lambda>n::nat. No_choices"
  let ?w = "\<lparr>api_calls = 0, sleeps = []\<rparr>"
  let ?m = "\<lparr>player_name = asc ''P'', summary = asc ''old'',
         recent = [\<lparr>role = asc ''assistant'', content = asc ''a''\<rparr>,
                   \<lparr>role = asc ''assistant'', content = asc ''b''\<rparr>,
                   \<lparr>role = asc ''assistant'', content = asc ''c''\<rparr>], compress_count = 7\<rparr>"
  have sub: "strip (format_messages_for_summary (player_name ?m) (slice_to (recent ?m) (- 2))) \<noteq> []"
    by (simp add: format_messages_for_summary_def format_message_def strip_def isspace_def asc_def
        slice_to_def slice_bound_def)
  have t: "try_request No_choices = Inl ([65, 80, 73, 36820, 22238, 30340] @ asc ''choices'' @ [20026, 31354])"
    by (simp add: try_request_def)
  note inst = retry_exhaustion_degrades[where api = ?api and w = ?w and K = 2 and m = ?m]
  from inst have c: "call_with_retry ?api ?w
     = (failure_string (Some ([65, 80, 73, 36820, 22238, 30340] @ asc ''choices'' @ [20026, 31354])),
        \<lparr>api_calls = 3, sleeps = [2, 4]\<rparr>)"
    by (simp add: t prod_eq_iff)
  have "startswith (fst (chat ?api ?w)) LLM_FAILED"
    using inst by (simp add: t chat_def failure_string_marked)
  with inst sub have "compress 2 ?api (?m, ?w) =
            (?m\<lparr>recent := drop (length (recent ?m) - nat 2) (recent ?m)\<rparr>, snd (chat ?api ?w))"
    by simp
  with c show ?thesis by (simp add: chat_def)
qed

text \<open>
  C10. With \<open>0 < K < T\<close>, after every \<open>add\<close>, from whatever store, the recent list is
  shorter than \<open>T\<close>, and so it is after any non-empty run of appends; every branch of the
  compression leaves in recent the last \<open>K\<close> messages, which are exactly \<open>K\<close> when the
  threshold had been reached.
\<close>

theorem recent_stays_bounded:
  assumes "0 < K" and "K < T"
  shows "int (length (recent (fst (add T K api r c mw)))) < T
    \<and> (msgs \<noteq> [] \<longrightarrow> int (length (recent (fst (add_all T K api msgs mw)))) < T)
    \<and> recent (fst (compress K api mw)) = drop (length (recent (fst mw)) - nat K) (recent (fst mw))
    \<and> (T \<le> int (length (recent (fst mw))) \<longrightarrow> int (length (recent (fst (compress K api mw)))) = K)"
  using assms add_bounded[OF assms] add_all_bounded[OF assms]
  by (simp add: compress_recent slice_from_neg_length) (simp add: slice_from_def slice_bound_neg)

theorem recent_stays_bounded_witness:
  "int (length (recent (fst (add 4 2 (\<lambda>n. Content (asc ''S'')) (asc ''assistant'') (asc ''ok'')
      (\<lparr>player_name = asc ''P'', summary = [],
        recent = [\<lparr>role = asc ''user'', content = []\<rparr>, \<lparr>role = asc ''user'', content = []\<rparr>,
                  \<lparr>role = asc ''user'', content = []\<rparr>],
        compress_count = 0\<rparr>, \<lparr>api_calls = 0, sleeps = []\<rparr>))))) < 4"
  using recent_stays_bounded[of 2 4 "(\<lambda>n. Content (asc ''S''))" "asc ''assistant''" "asc ''ok''"
      "(\<lparr>player_name = asc ''P'', summary = [],
        recent = [\<lparr>role = asc ''user'', content = []\<rparr>, \<lparr>role = asc ''user'', content = []\<rparr>,
                  \<lparr>role = asc ''user'', content = []\<rparr>],
        compress_count = 0\<rparr>, \<lparr>api_calls = 0, sleeps = []\<rparr>)" "[]"]
  by simp

section \<open>Properties of the public history\<close>

lemma record_lines_public: "same_public_record r1 r2 \<Longrightarrow> record_lines r1 = record_lines r2"
  by (simp add: same_public_record_def record_lines_def split: option.splits)

lemma records_lines_public:
  "list_all2 (\<lambda>a b. same_public_record (h1 ! a) (h2 ! b)) as bs \<Longrightarrow>
   map (\<lambda>a. record_lines (h1 ! a)) as = map (\<lambda>b. record_lines (h2 ! b)) bs"
  by (induction rule: list_all2_induct) (simp_all add: record_lines_public)

text \<open>
  C9. The public history reads the team votes and the mission votes only through their
  tallies: two game states whose records agree, one by one, on round number, leader, team
  members, speeches, outcome and the four tallies, and whose scores agree, have the same
  public history, whoever cast which vote.
\<close>

theorem public_history_noninterference:
  assumes "list_all2 (\<lambda>a b. same_public_record (h1 ! a) (h2 ! b)) (mission_records s1) (mission_records s2)"
    and "good_wins_count s1 = good_wins_count s2"
    and "evil_wins_count s1 = evil_wins_count s2"
  shows "get_public_history h1 s1 = get_public_history h2 s2"
proof -
  from assms(1) have "mission_records s1 = [] \<longleftrightarrow> mission_records s2 = []"
    by (auto dest: list_all2_lengthD)
  then show ?thesis
    using records_lines_public[OF assms(1)] assms(2,3)
    by (simp add: get_public_history_def)
qed

theorem public_history_noninterference_witness:
  "get_public_history
     [(new_record 1 0 [0, 1])\<lparr>team_votes := [(0, True), (1, False), (2, True)],
        mission_votes := [(0, True), (1, False)], success := Some False\<rparr>]
     (GameState_init\<lparr>mission_records := [0], mission_results := [False]\<rparr>)
   = get_public_history
     [(new_record 1 0 [0, 1])\<lparr>team_votes := [(0, True), (1, True), (2, False)],
        mission_votes := [(0, False), (1, True)], success := Some False\<rparr>]
     (GameState_init\<lparr>mission_records := [0], mission_results := [False]\<rparr>)"
  by (rule public_history_noninterference)
     (simp_all add: same_public_record_def approve_count_def reject_count_def success_count_def
        fail_count_def new_record_def good_wins_count_def evil_wins_count_def)

section \<open>Properties of the game\<close>

subsection \<open>Team proposal\<close>

text \<open>
  C3. The claim fails on the code: when the answer of the leader holds the JSON object
  \<open>{"team": 5}\<close>, \<open>_parse_team\<close> iterates over the integer, which raises \<open>TypeError\<close>;
  its \<open>except\<close> clause does not list that class, so the exception leaves
  \<open>execute_team_phase\<close> and \<open>GameEngine.run\<close>, and no team is stored.
\<close>

theorem team_proposal_raises:
  "parse_team e 0 bad_team_reply 2 n = Inl TypeError
   \<and> execute_team_phase \<lparr>llm = (\<lambda>n. bad_team_reply), rnd = (\<lambda>n. 0)\<rparr> (start example_game) = Inl TypeError
   \<and> run \<lparr>llm = (\<lambda>n. bad_team_reply), rnd = (\<lambda>n. 0)\<rparr>
        [merlin, percival, loyal_servant_1, loyal_servant_2, morgana, assassin] 0 = Inl TypeError"
proof (intro conjI)
  show "parse_team e 0 bad_team_reply 2 n = Inl TypeError"
    by (simp add: parse_team_def parse_team_try_def bad_team_reply_def dict_get_def
        caught_by_parse_team_def asc_def)
  show "execute_team_phase \<lparr>llm = (\<lambda>n. bad_team_reply), rnd = (\<lambda>n. 0)\<rparr> (start example_game) = Inl TypeError"
    by code_simp
  show "run \<lparr>llm = (\<lambda>n. bad_team_reply), rnd = (\<lambda>n. 0)\<rparr>
        [merlin, percival, loyal_servant_1, loyal_servant_2, morgana, assassin] 0 = Inl TypeError"
    by code_simp
qed

subsection \<open>Mission\<close>

lemma setitem_fresh: "k \<notin> fst ` set d \<Longrightarrow> setitem d k v = d @ [(k, v)]"
  by (induction d) auto

lemma set_all_fresh:
  "distinct (map fst kvs) \<Longrightarrow> fst ` set kvs \<inter> fst ` set d = {} \<Longrightarrow> set_all d kvs = d @ kvs"
proof (induction kvs arbitrary: d)
  case Nil
  then show ?case by (simp add: set_all_def)
next
  case (Cons kv kvs)
  have "setitem d (fst kv) (snd kv) = d @ [kv]"
    using Cons.prems(2) by (simp add: setitem_fresh)
  moreover have "set_all (d @ [kv]) kvs = (d @ [kv]) @ kvs"
    using Cons.prems by (intro Cons.IH) auto
  ultimately show ?case by (simp add: set_all_def)
qed

lemma store_update_twice:
  "(xs[a := x])[a := f (xs[a := x] ! a)] = xs[a := f x]"
  by (cases "a < length xs") (simp_all add: list_update_beyond)

lemma act_all_result:
  "act_all e a pids (w, x, y) = Inr (w', x', y') \<Longrightarrow>
   \<exists>vs. length vs = length pids \<and> game w' = game w
     \<and> store w' = (store w)[a := (store w ! a)\<lparr>mission_votes := set_all (mission_votes (store w ! a)) (zip pids vs)\<rparr>]
     \<and> x' = x + int (length (filter (\<lambda>v. v) vs)) \<and> y' = y + int (length (filter (\<lambda>v. \<not> v) vs))
     \<and> (\<forall>i<length pids. \<forall>p. agent_player (game w) (pids ! i) = Inr p \<longrightarrow> is_good p \<longrightarrow> vs ! i)"
proof (induction pids arbitrary: w x y)
  case Nil
  then show ?case by (cases "a < length (store w)") (simp_all add: set_all_def list_update_beyond)
next
  case (Cons pid pids)
  from Cons.prems obtain agent player v w1 where
    ag: "agent_player (game w) pid = Inr agent" and "get_player (game w) pid = Inr player"
    and ma: "mission_action e agent w = Inr (v, w1)"
    and rest: "act_all e a pids
            (update_record a (\<lambda>r. r\<lparr>mission_votes := setitem (mission_votes r) pid v\<rparr>) w1,
             if v then x + 1 else x, if v then y else y + 1) = Inr (w', x', y')"
    by (auto split: sum.splits)
  from ma have w1: "game w1 = game w" "store w1 = store w" and good: "is_good agent \<longrightarrow> v"
    by (auto simp: mission_action_def ask_def split: if_splits sum.splits)
  let ?w2 = "update_record a (\<lambda>r. r\<lparr>mission_votes := setitem (mission_votes r) pid v\<rparr>) w1"
  from Cons.IH[OF rest] obtain vs where
    vs: "length vs = length pids" "game w' = game ?w2"
      "store w' = (store ?w2)[a := (store ?w2 ! a)\<lparr>mission_votes := set_all (mission_votes (store ?w2 ! a)) (zip pids vs)\<rparr>]"
      "x' = (if v then x + 1 else x) + int (length (filter (\<lambda>v. v) vs))"
      "y' = (if v then y else y + 1) + int (length (filter (\<lambda>v. \<not> v) vs))"
      "\<forall>i<length pids. \<forall>p. agent_player (game ?w2) (pids ! i) = Inr p \<longrightarrow> is_good p \<longrightarrow> vs ! i"
    by blast
  have st: "store w' = (store w)[a := (store w ! a)\<lparr>mission_votes := set_all (mission_votes (store w ! a)) (zip (pid # pids) (v # vs))\<rparr>]"
  proof (cases "a < length (store w)")
    case True
    then show ?thesis using vs(3) w1 by (simp add: update_record_def set_all_def)
  next
    case False
    then show ?thesis using vs(3) w1 by (simp add: update_record_def list_update_beyond)
  qed
  have gd: "\<forall>i<length (pid # pids). \<forall>p. agent_player (game w) ((pid # pids) ! i) = Inr p \<longrightarrow> is_good p \<longrightarrow> (v # vs) ! i"
    using vs(6) ag good w1 by (auto simp: nth_Cons update_record_def split: nat.splits)
  show ?case
    using vs(1,2,4,5) w1 st gd
    by (intro exI[of _ "v # vs"]) (auto simp: update_record_def)
qed


lemma votes_of_zip:
  "length vs = length pids \<Longrightarrow> int (length (filter (\<lambda>v. \<not> v) (map snd (zip pids vs)))) = int (length (filter (\<lambda>v. \<not> v) vs))"
  by simp

text \<open>
  C4. In a mission that is executed, on a fresh record and a duplicate-free team: the
  mission votes are those of the team members, one each and in the order of the team;
  the vote of every member whose agent is good is success, whatever the oracle says;
  the record's outcome is success exactly when the number of fail votes is below the entry
  of \<open>MISSION_FAIL_REQUIRED\<close> for the round; and the outcome is appended to the mission
  results.
\<close>

theorem mission_rules:
  assumes run: "execute_mission e a w = Inr (w', ok)"
    and a: "a < length (store w)"
    and fresh: "mission_votes (store w ! a) = []"
    and dist: "distinct (proposed_team (game w))"
  shows "map fst (mission_votes (store w' ! a)) = proposed_team (game w)
     \<and> (\<forall>pid\<in>set (proposed_team (game w)). \<forall>p. agent_player (game w) pid = Inr p \<longrightarrow> is_good p
            \<longrightarrow> map_of (mission_votes (store w' ! a)) pid = Some True)
     \<and> success (store w' ! a) = Some ok
     \<and> (\<exists>fail_required. getitem MISSION_FAIL_REQUIRED (current_round (game w)) = Inr fail_required
            \<and> (ok \<longleftrightarrow> fail_count (store w' ! a) < fail_required))
     \<and> mission_results (game w') = mission_results (game w) @ [ok]"
proof -
  let ?team = "proposed_team (game w)"
  from run obtain fail_required w1 x y where
    req: "getitem MISSION_FAIL_REQUIRED (current_round (game w)) = Inr fail_required"
    and loop: "act_all e a ?team (w, 0, 0) = Inr (w1, x, y)"
    and ok: "ok = (y < fail_required)"
    and w': "w' = (update_record a (\<lambda>r. r\<lparr>success := Some ok\<rparr>) w1)
               \<lparr>game := (game w1)\<lparr>mission_results := mission_results (game w1) @ [ok]\<rparr>\<rparr>"
    by (auto simp: execute_mission_def Let_def split: sum.splits)
  from act_all_result[OF loop] obtain vs where
    vs: "length vs = length ?team" "game w1 = game w"
      "store w1 = (store w)[a := (store w ! a)\<lparr>mission_votes := set_all (mission_votes (store w ! a)) (zip ?team vs)\<rparr>]"
      "y = int (length (filter (\<lambda>v. \<not> v) vs))"
      "\<forall>i<length ?team. \<forall>p. agent_player (game w) (?team ! i) = Inr p \<longrightarrow> is_good p \<longrightarrow> vs ! i"
    by auto
  have "set_all [] (zip ?team vs) = [] @ zip ?team vs"
    using dist vs(1) by (intro set_all_fresh) simp_all
  then have mv: "mission_votes (store w' ! a) = zip ?team vs"
    using a vs(3) fresh w' by (simp add: update_record_def)
  have keys: "map fst (mission_votes (store w' ! a)) = ?team"
    using vs(1) by (simp add: mv)
  have good: "map_of (mission_votes (store w' ! a)) pid = Some True"
    if "pid \<in> set ?team" "agent_player (game w) pid = Inr p" "is_good p" for pid p
  proof -
    from that(1) obtain i where i: "i < length ?team" "?team ! i = pid"
      by (auto simp: in_set_conv_nth)
    with vs(5) that(2,3) have "vs ! i" by blast
    moreover have "map_of (zip ?team vs) (?team ! i) = Some (vs ! i)"
      using dist i(1) vs(1) by (intro map_of_zip_nth) simp_all
    ultimately show ?thesis using i(2) by (simp add: mv)
  qed
  have succ: "success (store w' ! a) = Some ok"
    using a vs(3) w' by (simp add: update_record_def)
  have "fail_count (store w' ! a) = y"
    using vs(1,4) by (simp add: fail_count_def mv)
  with req ok have thr: "\<exists>fail_required. getitem MISSION_FAIL_REQUIRED (current_round (game w)) = Inr fail_required
            \<and> (ok \<longleftrightarrow> fail_count (store w' ! a) < fail_required)"
    by simp
  have res: "mission_results (game w') = mission_results (game w) @ [ok]"
    using w' vs(2) by (simp add: update_record_def)
  from keys good succ thr res show ?thesis by blast
qed

theorem mission_rules_witness:
  "\<exists>w'. execute_mission \<lparr>llm = (\<lambda>n. answer (asc ''action'') (asc ''fail'')), rnd = (\<lambda>n. 0)\<rparr> 0
           ((start (example_game\<lparr>proposed_team := [0, 4]\<rparr>))\<lparr>store := [new_record 1 0 [0, 4]]\<rparr>)
         = Inr (w', False)
       \<and> mission_votes (store w' ! 0) = [(0, True), (4, False)]
       \<and> success (store w' ! 0) = Some False
       \<and> mission_results (game w') = [False]"
proof -
  let ?e = "\<lparr>llm = (\<lambda>n. answer (asc ''action'') (asc ''fail'')), rnd = (\<lambda>n. 0)\<rparr>"
  let ?w = "(start (example_game\<lparr>proposed_team := [0, 4]\<rparr>))\<lparr>store := [new_record 1 0 [0, 4]]\<rparr>"
  have "case execute_mission ?e 0 ?w of Inl err \<Rightarrow> False
        | Inr (w', ok) \<Rightarrow> \<not> ok \<and> mission_votes (store w' ! 0) = [(0, True), (4, False)]"
    by code_simp
  then obtain w' where run: "execute_mission ?e 0 ?w = Inr (w', False)"
    and votes: "mission_votes (store w' ! 0) = [(0, True), (4, False)]"
    by (auto split: sum.splits)
  have "0 < length (store ?w)" "mission_votes (store ?w ! 0) = []" "distinct (proposed_team (game ?w))"
    by (simp_all add: start_def new_record_def)
  moreover have "mission_results example_game = []"
    by code_simp
  ultimately have "success (store w' ! 0) = Some False \<and> mission_results (game w') = [False]"
    using mission_rules[OF run] by (simp add: start_def)
  with run votes show ?thesis by blast
qed

(*THMS*)

section \<open>Properties of the control commands\<close>

lemma pause_running:
  "state r = STATE_RUNNING \<Longrightarrow> pause r = r\<lparr>pause_event := False, state := STATE_PAUSED\<rparr>"
  by (simp add: pause_def)

lemma pause_other: "state r \<noteq> STATE_RUNNING \<Longrightarrow> pause r = r"
  by (simp add: pause_def)

lemma resume_paused:
  "state r = STATE_PAUSED \<Longrightarrow>
   resume r = r\<lparr>step_mode := False, state := STATE_RUNNING, pause_event := True\<rparr>"
  by (simp add: resume_def)

lemma resume_other: "state r \<noteq> STATE_PAUSED \<Longrightarrow> resume r = r"
  by (simp add: resume_def)

lemma step_paused:
  "state r = STATE_PAUSED \<Longrightarrow>
   step r = r\<lparr>step_mode := True, state := STATE_RUNNING, pause_event := True\<rparr>"
  by (simp add: step_def)

lemma step_other: "state r \<noteq> STATE_PAUSED \<Longrightarrow> step r = r"
  by (simp add: step_def)

lemma step_then_wake:
  "state r = STATE_PAUSED \<Longrightarrow> \<not> stop_requested r \<Longrightarrow> checkpoint_wait (step r) = Proceed"
  by (simp add: step_def checkpoint_wait_def)

lemma step_then_checkpoint:
  "state r = STATE_PAUSED \<Longrightarrow> \<not> stop_requested r \<Longrightarrow>
   checkpoint (step r) =
     (r\<lparr>step_mode := True, state := STATE_PAUSED, pause_event := False\<rparr>,
      [(asc ''runner_paused'', [(asc ''reason'', asc ''step'')])],
      Suspended)"
  by (simp add: step_def checkpoint_def checkpoint_wait_def Let_def)

text \<open>
  C7. \<open>pause\<close> takes Running to Paused and leaves every other state as it is;
  \<open>resume\<close> takes Paused to Running with single-step cleared and leaves every other
  state as it is; \<open>step\<close> takes Paused to Running with single-step armed and leaves
  every other state as it is. After a \<open>step\<close> (no stop being requested) the suspended
  checkpoint returns, so the protocol makes one unit of progress, and the next checkpoint
  sets the state back to Paused, emits exactly one \<open>runner_paused\<close> event and stays
  suspended.
\<close>

theorem control_commands:
  "(state r = STATE_RUNNING \<longrightarrow>
      state (pause r) = STATE_PAUSED \<and> stop_requested (pause r) = stop_requested r
      \<and> step_mode (pause r) = step_mode r)
   \<and> (state r \<noteq> STATE_RUNNING \<longrightarrow> pause r = r)
   \<and> (state r = STATE_PAUSED \<longrightarrow>
      state (resume r) = STATE_RUNNING \<and> \<not> step_mode (resume r)
      \<and> stop_requested (resume r) = stop_requested r)
   \<and> (state r \<noteq> STATE_PAUSED \<longrightarrow> resume r = r)
   \<and> (state r = STATE_PAUSED \<longrightarrow>
      state (step r) = STATE_RUNNING \<and> step_mode (step r)
      \<and> stop_requested (step r) = stop_requested r)
   \<and> (state r \<noteq> STATE_PAUSED \<longrightarrow> step r = r)
   \<and> (state r = STATE_PAUSED \<and> \<not> stop_requested r \<longrightarrow>
      checkpoint_wait (step r) = Proceed
      \<and> (case checkpoint (step r) of (r', events, outcome) \<Rightarrow>
           state r' = STATE_PAUSED
           \<and> events = [(asc ''runner_paused'', [(asc ''reason'', asc ''step'')])]
           \<and> outcome = Suspended
           \<and> checkpoint_wait r' = Suspended))"
  by (simp add: pause_def resume_def step_def checkpoint_def checkpoint_wait_def Let_def)

theorem control_commands_witness:
  "state (pause (runner_init\<lparr>state := STATE_RUNNING\<rparr>)) = STATE_PAUSED
   \<and> pause runner_init = runner_init
   \<and> state (resume (pause (runner_init\<lparr>state := STATE_RUNNING\<rparr>))) = STATE_RUNNING
   \<and> resume runner_init = runner_init
   \<and> step_mode (step (pause (runner_init\<lparr>state := STATE_RUNNING\<rparr>)))
   \<and> step runner_init = runner_init
   \<and> checkpoint_wait (step (pause (runner_init\<lparr>state := STATE_RUNNING\<rparr>))) = Proceed
   \<and> fst (snd (checkpoint (step (pause (runner_init\<lparr>state := STATE_RUNNING\<rparr>)))))
       = [(asc ''runner_paused'', [(asc ''reason'', asc ''step'')])]"
  using control_commands [of "runner_init\<lparr>state := STATE_RUNNING\<rparr>"]
    control_commands [of runner_init]
    control_commands [of "pause (runner_init\<lparr>state := STATE_RUNNING\<rparr>)"]
  by (simp add: runner_init_def pause_def split: prod.splits)

end
